theory Spec2Isabelle
  imports Main
begin

section \<open>Python exceptions and the numpy layer\<close>

text \<open>
  Every \<^verbatim>\<open>raise\<close> of the source, and every exception raised by Python or numpy
  on the paths the source takes, is a value of this type; a function that can raise
  returns \<open>error + 'a\<close> with \<open>Inl\<close> the exception.
  \<open>UnboundLocalError\<close> is Python's subclass of \<open>NameError\<close> for a local variable read
  before any assignment.
\<close>

datatype error =
    IndexError
  | ValueError
  | TypeError
  | EOFError
  | NameError
  | UnboundLocalError
  | AssertionError
  | ZeroDivisionError
  | GeneratorExit

datatype dtype = Bool | Int64 | Float32 | Float64

text \<open>
  A numpy array: its shape, its element type and its values in row-major order. The
  values are kept abstract (\<open>'v\<close>); \<open>0\<close> is what \<^verbatim>\<open>np.zeros\<close> fills with.
\<close>

record 'v ndarray =
  nd_shape :: "nat list"
  nd_dtype :: dtype
  nd_flat :: "'v list"

definition np_zeros :: "nat list \<Rightarrow> dtype \<Rightarrow> ('v::zero) ndarray" where
  "np_zeros shp dt = \<lparr>nd_shape = shp, nd_dtype = dt, nd_flat = replicate (prod_list shp) 0\<rparr>"

text \<open>\<^verbatim>\<open>len(a)\<close>: the first dimension; a 0-d array has no length.\<close>

definition np_len :: "'v ndarray \<Rightarrow> error + nat" where
  "np_len a = (case nd_shape a of [] \<Rightarrow> Inl TypeError | n # _ \<Rightarrow> Inr n)"

text \<open>The number of values in one row (one index of axis 0).\<close>

definition row_size :: "'v ndarray \<Rightarrow> nat" where
  "row_size a = prod_list (drop 1 (nd_shape a))"

definition np_row :: "'v ndarray \<Rightarrow> nat \<Rightarrow> 'v ndarray" where
  "np_row a i = \<lparr>nd_shape = drop 1 (nd_shape a), nd_dtype = nd_dtype a,
     nd_flat = take (row_size a) (drop (i * row_size a) (nd_flat a))\<rparr>"

text \<open>\<^verbatim>\<open>for d in a\<close>: the rows of axis 0, in order.\<close>

definition np_iter :: "'v ndarray \<Rightarrow> error + 'v ndarray list" where
  "np_iter a = (case nd_shape a of [] \<Rightarrow> Inl TypeError
     | n # _ \<Rightarrow> Inr (map (np_row a) [0..<n]))"

text \<open>\<^verbatim>\<open>a[:k]\<close> for \<open>k \<ge> 0\<close>: the slice is clipped to the array.\<close>

definition np_take :: "'v ndarray \<Rightarrow> nat \<Rightarrow> error + 'v ndarray" where
  "np_take a k = (case nd_shape a of [] \<Rightarrow> Inl IndexError
     | n # r \<Rightarrow> Inr \<lparr>nd_shape = min k n # r, nd_dtype = nd_dtype a,
         nd_flat = take (min k n * prod_list r) (nd_flat a)\<rparr>)"

text \<open>
  Assignment \<^verbatim>\<open>target[...] = value\<close> broadcasts the value to the target's shape:
  leading dimensions of size 1 that the target does not have are dropped, missing
  leading dimensions are repeated, and a dimension of size 1 is stretched. Anything
  else is numpy's \<^verbatim>\<open>ValueError: could not broadcast\<close>.
\<close>

fun strip_leading_ones :: "nat \<Rightarrow> nat list \<Rightarrow> nat list" where
  "strip_leading_ones n [] = []"
| "strip_leading_ones n (v # vs) =
     (if n < length (v # vs) \<and> v = 1 then strip_leading_ones n vs else v # vs)"

fun broadcast_to :: "nat list \<Rightarrow> 'v list \<Rightarrow> nat list \<Rightarrow> 'v list option" where
  "broadcast_to [] d [] = Some d"
| "broadcast_to (v # vs) d [] = None"
| "broadcast_to vs d (t # ts) =
     (if length vs < length (t # ts)
      then map_option (\<lambda>r. concat (replicate t r)) (broadcast_to vs d ts)
      else (case vs of
          [] \<Rightarrow> None
        | v # vs' \<Rightarrow>
            if v = t
            then (let m = prod_list vs';
                      rs = map (\<lambda>i. broadcast_to vs' (take m (drop (i * m) d)) ts) [0..<t]
                  in if list_all (\<lambda>r. r \<noteq> None) rs then Some (concat (map the rs)) else None)
            else if v = 1
            then map_option (\<lambda>r. concat (replicate t r)) (broadcast_to vs' d ts)
            else None))"

definition np_broadcast :: "'v ndarray \<Rightarrow> nat list \<Rightarrow> error + 'v list" where
  "np_broadcast val target =
     (if nd_shape val = target then Inr (nd_flat val)
      else (case broadcast_to (strip_leading_ones (length target) (nd_shape val))
                   (nd_flat val) target of
          None \<Rightarrow> Inl ValueError
        | Some d \<Rightarrow> Inr d))"

text \<open>\<^verbatim>\<open>a[i] = val\<close> for an index \<open>i \<ge> 0\<close>.\<close>

definition np_setitem :: "'v ndarray \<Rightarrow> nat \<Rightarrow> 'v ndarray \<Rightarrow> error + 'v ndarray" where
  "np_setitem a i val =
     (case nd_shape a of
        [] \<Rightarrow> Inl IndexError
      | n # r \<Rightarrow>
          if n \<le> i then Inl IndexError
          else (case np_broadcast val r of
              Inl e \<Rightarrow> Inl e
            | Inr d \<Rightarrow> Inr (a\<lparr>nd_flat := take (i * prod_list r) (nd_flat a) @ d
                              @ drop (Suc i * prod_list r) (nd_flat a)\<rparr>)))"

text \<open>
  \<^verbatim>\<open>a[lo:hi] = val\<close> for \<open>0 \<le> lo\<close>, \<open>0 \<le> hi\<close>: both bounds are clipped to the length of \<open>a\<close>,
  and the value is broadcast to the shape of the clipped slice.
\<close>

definition np_setslice ::
    "'v ndarray \<Rightarrow> nat \<Rightarrow> nat \<Rightarrow> 'v ndarray \<Rightarrow> error + 'v ndarray" where
  "np_setslice a lo hi val =
     (case nd_shape a of
        [] \<Rightarrow> Inl IndexError
      | n # r \<Rightarrow>
          (let lo' = min lo n; hi' = max lo' (min hi n) in
           case np_broadcast val ((hi' - lo') # r) of
              Inl e \<Rightarrow> Inl e
            | Inr d \<Rightarrow> Inr (a\<lparr>nd_flat := take (lo' * prod_list r) (nd_flat a) @ d
                              @ drop (hi' * prod_list r) (nd_flat a)\<rparr>)))"

section \<open>\<^verbatim>\<open>buffered_array_writer\<close> (io.py)\<close>

text \<open>
  The storage array is whatever the caller passes; the subclasses pass \<^verbatim>\<open>None\<close> and
  set it afterwards, so the field is optional.
\<close>

record 'v buffered_array_writer =
  storage_array :: "'v ndarray option"
  data_element_shape :: "nat list"
  dtype :: dtype
  batch_size :: nat
  length_w :: "nat option"
  buffer :: "'v ndarray"
  buffer_ptr :: nat
  storage_array_ptr :: nat

definition buffered_array_writer_init ::
    "('v::zero) ndarray option \<Rightarrow> nat list \<Rightarrow> dtype \<Rightarrow> nat \<Rightarrow> nat option
      \<Rightarrow> 'v buffered_array_writer" where
  "buffered_array_writer_init sa shp dt bs len =
     \<lparr>storage_array = sa, data_element_shape = shp, dtype = dt, batch_size = bs,
      length_w = len, buffer = np_zeros (bs # shp) dt,
      buffer_ptr = 0, storage_array_ptr = 0\<rparr>"

text \<open>
  \<^verbatim>\<open>flush_buffer\<close>: an exception of the slice assignment leaves both pointers as they
  were, since they are updated after it. Assigning into \<^verbatim>\<open>None\<close> is a
  \<^verbatim>\<open>TypeError\<close>.
\<close>

definition flush_buffer :: "'v buffered_array_writer \<Rightarrow> error + 'v buffered_array_writer" where
  "flush_buffer w =
     (if 0 < buffer_ptr w then
        (let end = storage_array_ptr w + buffer_ptr w in
         case np_take (buffer w) (buffer_ptr w) of
           Inl e \<Rightarrow> Inl e
         | Inr chunk \<Rightarrow>
             (case storage_array w of
                None \<Rightarrow> Inl TypeError
              | Some arr \<Rightarrow>
                  (case np_setslice arr (storage_array_ptr w) end chunk of
                     Inl e \<Rightarrow> Inl e
                   | Inr sa \<Rightarrow> Inr (w\<lparr>storage_array := Some sa,
                                     storage_array_ptr := storage_array_ptr w + buffer_ptr w,
                                     buffer_ptr := 0\<rparr>))))
      else Inr w)"

text \<open>
  The loop \<^verbatim>\<open>for d in data\<close> of \<^verbatim>\<open>buffered_write\<close>: store the element at
  \<^verbatim>\<open>buffer_ptr\<close>, advance, flush when the buffer is full.
\<close>

fun write_elements ::
    "'v buffered_array_writer \<Rightarrow> 'v ndarray list \<Rightarrow> error + 'v buffered_array_writer" where
  "write_elements w [] = Inr w"
| "write_elements w (d # ds) =
     (case np_setitem (buffer w) (buffer_ptr w) d of
        Inl e \<Rightarrow> Inl e
      | Inr b \<Rightarrow>
          (let w1 = w\<lparr>buffer := b, buffer_ptr := buffer_ptr w + 1\<rparr> in
           if buffer_ptr w1 = batch_size w1
           then (case flush_buffer w1 of Inl e \<Rightarrow> Inl e | Inr w2 \<Rightarrow> write_elements w2 ds)
           else write_elements w1 ds))"

text \<open>
  The shape of \<^verbatim>\<open>data[1:]\<close>: the first dimension loses one row (none when it is
  empty); a 0-d array cannot be sliced.
\<close>

definition shape_of_tail :: "nat list \<Rightarrow> error + nat list" where
  "shape_of_tail shp = (case shp of [] \<Rightarrow> Inl IndexError | n # r \<Rightarrow> Inr ((n - 1) # r))"

text \<open>
  \<^verbatim>\<open>data_len\<close> is a local variable that the \<^verbatim>\<open>if\<close>/\<^verbatim>\<open>elif\<close> of lines 224-227 may
  leave unassigned: \<open>None\<close> is the unbound variable. The \<^verbatim>\<open>elif\<close> compares the shape
  of \<^verbatim>\<open>data[1:]\<close> (not \<^verbatim>\<open>data.shape[1:]\<close>) with the element shape.
\<close>

definition data_len_of :: "nat list \<Rightarrow> 'v ndarray \<Rightarrow> error + nat option" where
  "data_len_of elem_shape data =
     (if nd_shape data = elem_shape then Inr (Some 1)
      else (case shape_of_tail (nd_shape data) of
          Inl e \<Rightarrow> Inl e
        | Inr s \<Rightarrow>
            if s = elem_shape
            then (case np_len data of Inl e \<Rightarrow> Inl e | Inr n \<Rightarrow> Inr (Some n))
            else Inr None))"

definition buffered_write ::
    "'v buffered_array_writer \<Rightarrow> 'v ndarray \<Rightarrow> error + 'v buffered_array_writer" where
  "buffered_write w data =
     (if nd_shape data \<noteq> data_element_shape w
         \<and> drop 1 (nd_shape data) \<noteq> data_element_shape w
      then Inl ValueError
      else (case data_len_of (data_element_shape w) data of
          Inl e \<Rightarrow> Inl e
        | Inr data_len \<Rightarrow>
            if length_w w \<noteq> None \<and> length_w w = Some (storage_array_ptr w)
            then Inl EOFError
            else if nd_dtype data \<noteq> dtype w then Inl TypeError
            else (case data_len of
                None \<Rightarrow> Inl UnboundLocalError
              | Some n \<Rightarrow>
                  (case (if n = 1 then Inr [data] else np_iter data) of
                     Inl e \<Rightarrow> Inl e
                   | Inr ds \<Rightarrow>
                       (case write_elements w ds of
                          Inl e \<Rightarrow> Inl e
                        | Inr w1 \<Rightarrow>
                            if length_w w1 \<noteq> None
                               \<and> Some (storage_array_ptr w1 + buffer_ptr w1) = length_w w1
                            then flush_buffer w1
                            else Inr w1)))))"

section \<open>\<^verbatim>\<open>bcolz_array_writer\<close> (io.py)\<close>

text \<open>
  What a name can be bound to, as far as the constructor is concerned. A name that a
  function never assigns is looked up in the module's globals and then in the builtins
  (\<^verbatim>\<open>LOAD_GLOBAL\<close>); a name found in neither raises \<^verbatim>\<open>NameError\<close>.
\<close>

datatype pyobj =
    ModuleObj string
  | ClassObj string
  | BuiltinObj string
  | NoneObj
  | IntObj int
  | StrObj string
  | ExternalObj string

text \<open>The global names of io.py: its imports, its classes and the module attributes.\<close>

definition module_globals :: "(string \<times> pyobj) list" where
  "module_globals =
     [(''np'', ModuleObj ''numpy''),
      (''threading'', ModuleObj ''threading''),
      (''multiprocessing'', ModuleObj ''multiprocessing''),
      (''queue'', ModuleObj ''queue''),
      (''h5py'', ModuleObj ''h5py''),
      (''bcolz'', ModuleObj ''bcolz''),
      (''data_flow'', ClassObj ''data_flow''),
      (''buffered_array_writer'', ClassObj ''buffered_array_writer''),
      (''h5py_array_writer'', ClassObj ''h5py_array_writer''),
      (''bcolz_array_writer'', ClassObj ''bcolz_array_writer''),
      (''__name__'', StrObj ''io''),
      (''__doc__'', NoneObj),
      (''__package__'', NoneObj),
      (''__loader__'', ExternalObj ''loader''),
      (''__spec__'', ExternalObj ''spec''),
      (''__file__'', StrObj ''io.py''),
      (''__builtins__'', ModuleObj ''builtins'')]"

definition builtin_names :: "string list" where
  "builtin_names =
     [''abs'', ''all'', ''any'', ''ascii'', ''bin'', ''bool'', ''breakpoint'', ''bytearray'',
      ''bytes'', ''callable'', ''chr'', ''classmethod'', ''compile'', ''complex'',
      ''delattr'', ''dict'', ''dir'', ''divmod'', ''enumerate'', ''eval'', ''exec'',
      ''filter'', ''float'', ''format'', ''frozenset'', ''getattr'', ''globals'',
      ''hasattr'', ''hash'', ''help'', ''hex'', ''id'', ''input'', ''int'', ''isinstance'',
      ''issubclass'', ''iter'', ''len'', ''list'', ''locals'', ''map'', ''max'',
      ''memoryview'', ''min'', ''next'', ''object'', ''oct'', ''open'', ''ord'', ''pow'',
      ''print'', ''property'', ''range'', ''repr'', ''reversed'', ''round'', ''set'',
      ''setattr'', ''slice'', ''sorted'', ''staticmethod'', ''str'', ''sum'', ''super'',
      ''tuple'', ''type'', ''vars'', ''zip'', ''__import__'',
      ''None'', ''True'', ''False'', ''Ellipsis'', ''NotImplemented'', ''__debug__'',
      ''BaseException'', ''Exception'', ''ArithmeticError'', ''AssertionError'',
      ''AttributeError'', ''BufferError'', ''EOFError'', ''FloatingPointError'',
      ''GeneratorExit'', ''ImportError'', ''ModuleNotFoundError'', ''IndexError'',
      ''KeyError'', ''KeyboardInterrupt'', ''LookupError'', ''MemoryError'', ''NameError'',
      ''NotImplementedError'', ''OSError'', ''IOError'', ''OverflowError'',
      ''RecursionError'', ''ReferenceError'', ''RuntimeError'', ''StopIteration'',
      ''StopAsyncIteration'', ''SyntaxError'', ''IndentationError'', ''TabError'',
      ''SystemError'', ''SystemExit'', ''TypeError'', ''UnboundLocalError'',
      ''UnicodeError'', ''UnicodeDecodeError'', ''UnicodeEncodeError'',
      ''UnicodeTranslateError'', ''ValueError'', ''ZeroDivisionError'', ''Warning'',
      ''DeprecationWarning'', ''RuntimeWarning'', ''UserWarning'', ''FutureWarning'']"

definition load_global :: "string \<Rightarrow> error + pyobj" where
  "load_global name =
     (case map_of module_globals name of
        Some v \<Rightarrow> Inr v
      | None \<Rightarrow> if name \<in> set builtin_names then Inr (BuiltinObj name) else Inl NameError)"

record 'v bcolz_array_writer =
  writer :: "'v buffered_array_writer"
  save_path :: pyobj
  kwargs :: "(string \<times> pyobj) list"
  write_mode :: string

text \<open>
  The constructor. \<open>bcolz_zeros\<close> stands for the library call \<^verbatim>\<open>bcolz.zeros\<close>, which
  is not part of the repository: it is a parameter, given the shape, the root
  directory, the mode and the keyword arguments. The parameter \<open>save_path_arg\<close> is the
  constructor's argument \<^verbatim>\<open>save_path\<close>; line 360 does not read it, it reads the global
  name \<^verbatim>\<open>save_pathsavepath\<close>.
\<close>

definition bcolz_array_writer_init ::
    "(nat list \<Rightarrow> pyobj \<Rightarrow> string \<Rightarrow> (string \<times> pyobj) list \<Rightarrow> error + ('v::zero) ndarray)
      \<Rightarrow> nat list \<Rightarrow> dtype \<Rightarrow> nat \<Rightarrow> string \<Rightarrow> nat option \<Rightarrow> bool
      \<Rightarrow> (string \<times> pyobj) list \<Rightarrow> error + 'v bcolz_array_writer" where
  "bcolz_array_writer_init bcolz_zeros elem_shape dt bs save_path_arg len append_flag kw =
     (let base = buffered_array_writer_init None elem_shape dt bs len in
      case load_global ''save_pathsavepath'' of
        Inl e \<Rightarrow> Inl e
      | Inr sp \<Rightarrow>
          (let kw' = (if kw = []
                      then [(''expectedlen'',
                               (case len of None \<Rightarrow> NoneObj | Some l \<Rightarrow> IntObj (int l))),
                            (''cparams'', ExternalObj ''bcolz.cparams'')]
                      else kw);
               mode = (if append_flag then ''a'' else ''w'')
           in case bcolz_zeros (0 # elem_shape) sp mode kw' of
                Inl e \<Rightarrow> Inl e
              | Inr arr \<Rightarrow>
                  Inr \<lparr>writer = base\<lparr>storage_array := Some arr\<rparr>, save_path = sp,
                       kwargs = kw', write_mode = mode\<rparr>))"

section \<open>\<^verbatim>\<open>multi_source_array\<close> (wrap.py)\<close>

subsection \<open>Keys\<close>

text \<open>
  The objects that reach \<^verbatim>\<open>__getitem__\<close>, as a tagged union. \<open>KInt\<close> is a Python
  \<^verbatim>\<open>int\<close> (a \<^verbatim>\<open>bool\<close> included, which is an \<^verbatim>\<open>int\<close>) or a numpy integer,
  \<open>KNpBool\<close> an element of a boolean array (not an integer for \<^verbatim>\<open>isinstance\<close>),
  \<open>KRange\<close> a \<^verbatim>\<open>range\<close> object, the two array forms a numpy array of booleans or
  of integers with its shape and its values in row-major order, and \<open>KOther\<close> any
  object with no \<^verbatim>\<open>__len__\<close> that is none of the others (a float, say).
\<close>

datatype key =
    KInt int
  | KNpBool bool
  | KSlice "int option" "int option" "int option"
  | KEllipsis
  | KNone
  | KOther
  | KRange int int int
  | KList "key list"
  | KTuple "key list"
  | KBoolArray "nat list" "bool list"
  | KIntArray "nat list" "int list"

text \<open>Python list indexing: a negative index counts from the end.\<close>

definition py_index :: "'a list \<Rightarrow> int \<Rightarrow> error + 'a" where
  "py_index xs i =
     (if 0 \<le> i \<and> i < int (length xs) then Inr (xs ! nat i)
      else if i < 0 \<and> - int (length xs) \<le> i then Inr (xs ! nat (int (length xs) + i))
      else Inl IndexError)"

text \<open>The elements of \<^verbatim>\<open>range(start, stop, step)\<close>; a zero step is a \<^verbatim>\<open>ValueError\<close>.\<close>

definition range_len :: "int \<Rightarrow> int \<Rightarrow> int \<Rightarrow> nat" where
  "range_len start stop step =
     (if 0 < step then nat ((stop - start + step - 1) div step)
      else nat ((start - stop - step - 1) div (- step)))"

definition range_list :: "int \<Rightarrow> int \<Rightarrow> int \<Rightarrow> int list" where
  "range_list start stop step =
     map (\<lambda>i. start + int i * step) [0..<range_len start stop step]"

definition py_range :: "int \<Rightarrow> int \<Rightarrow> int \<Rightarrow> error + key" where
  "py_range start stop step =
     (if step = 0 then Inl ValueError else Inr (KRange start stop step))"

text \<open>\<^verbatim>\<open>hasattr(k, '__len__')\<close>.\<close>

fun has_len :: "key \<Rightarrow> bool" where
  "has_len (KRange _ _ _) = True"
| "has_len (KList _) = True"
| "has_len (KTuple _) = True"
| "has_len (KBoolArray _ _) = True"
| "has_len (KIntArray _ _) = True"
| "has_len _ = False"

text \<open>
  The longest common prefix of a list of shapes: what \<^verbatim>\<open>np.shape\<close> finds below the
  first dimension of a nested list (a ragged list becomes an array of objects, as in
  the numpy versions that have \<^verbatim>\<open>np.bool\<close>).
\<close>

fun common_prefix2 :: "nat list \<Rightarrow> nat list \<Rightarrow> nat list" where
  "common_prefix2 (x # xs) (y # ys) = (if x = y then x # common_prefix2 xs ys else [])"
| "common_prefix2 _ _ = []"

fun common_prefix :: "nat list list \<Rightarrow> nat list" where
  "common_prefix [] = []"
| "common_prefix [s] = s"
| "common_prefix (s # t # ss) = common_prefix (common_prefix2 s t # ss)"

fun np_shape :: "key \<Rightarrow> nat list" where
  "np_shape (KList ks) = length ks # common_prefix (map np_shape ks)"
| "np_shape (KTuple ks) = length ks # common_prefix (map np_shape ks)"
| "np_shape (KBoolArray shp _) = shp"
| "np_shape (KIntArray shp _) = shp"
| "np_shape (KRange a b c) = [range_len a b c]"
| "np_shape _ = []"

definition np_size :: "key \<Rightarrow> nat" where
  "np_size k = prod_list (np_shape k)"

text \<open>\<^verbatim>\<open>len(k)\<close>: a 0-d array has \<^verbatim>\<open>__len__\<close> but no length.\<close>

fun key_len :: "key \<Rightarrow> error + nat" where
  "key_len (KList ks) = Inr (length ks)"
| "key_len (KTuple ks) = Inr (length ks)"
| "key_len (KRange a b c) = Inr (range_len a b c)"
| "key_len (KBoolArray shp _) = (case shp of [] \<Rightarrow> Inl TypeError | n # _ \<Rightarrow> Inr n)"
| "key_len (KIntArray shp _) = (case shp of [] \<Rightarrow> Inl TypeError | n # _ \<Rightarrow> Inr n)"
| "key_len _ = Inl TypeError"

text \<open>
  Row \<open>i\<close> of an array key: a scalar of a one-dimensional array, a sub-array otherwise.
\<close>

definition int_array_row :: "nat list \<Rightarrow> int list \<Rightarrow> nat \<Rightarrow> key" where
  "int_array_row r d i =
     (if r = [] then KInt (d ! i)
      else KIntArray r (take (prod_list r) (drop (i * prod_list r) d)))"

definition bool_array_row :: "nat list \<Rightarrow> bool list \<Rightarrow> nat \<Rightarrow> key" where
  "bool_array_row r d i =
     (if r = [] then KNpBool (d ! i)
      else KBoolArray r (take (prod_list r) (drop (i * prod_list r) d)))"

text \<open>\<^verbatim>\<open>for k in key\<close>, \<^verbatim>\<open>enumerate(values)\<close>: the elements in order.\<close>

fun key_iter :: "key \<Rightarrow> error + key list" where
  "key_iter (KList ks) = Inr ks"
| "key_iter (KTuple ks) = Inr ks"
| "key_iter (KRange a b c) = Inr (map KInt (range_list a b c))"
| "key_iter (KBoolArray shp d) =
     (case shp of [] \<Rightarrow> Inl TypeError
      | n # r \<Rightarrow> Inr (map (bool_array_row r d) [0..<n]))"
| "key_iter (KIntArray shp d) =
     (case shp of [] \<Rightarrow> Inl TypeError
      | n # r \<Rightarrow> Inr (map (int_array_row r d) [0..<n]))"
| "key_iter _ = Inl TypeError"

text \<open>\<^verbatim>\<open>k[i]\<close> for an index \<open>i \<ge> 0\<close> (the loop counter of \<^verbatim>\<open>_get_block\<close>, or 0).\<close>

fun key_getitem :: "key \<Rightarrow> nat \<Rightarrow> error + key" where
  "key_getitem (KList ks) i = py_index ks (int i)"
| "key_getitem (KTuple ks) i = py_index ks (int i)"
| "key_getitem (KRange a b c) i =
     (case py_index (range_list a b c) (int i) of Inl e \<Rightarrow> Inl e | Inr v \<Rightarrow> Inr (KInt v))"
| "key_getitem (KBoolArray shp d) i =
     (case shp of [] \<Rightarrow> Inl IndexError
      | n # r \<Rightarrow> if i < n then Inr (bool_array_row r d i) else Inl IndexError)"
| "key_getitem (KIntArray shp d) i =
     (case shp of [] \<Rightarrow> Inl IndexError
      | n # r \<Rightarrow> if i < n then Inr (int_array_row r d i) else Inl IndexError)"
| "key_getitem _ i = Inl TypeError"

text \<open>\<^verbatim>\<open>key[1:]\<close> as a tuple, for the sequences that reach line 138.\<close>

definition key_tail :: "key \<Rightarrow> error + key list" where
  "key_tail k = (case key_iter k of Inl e \<Rightarrow> Inl e | Inr ks \<Rightarrow> Inr (drop 1 ks))"

text \<open>
  \<^verbatim>\<open>mask.nonzero()\<close>: one integer array per dimension of the mask, holding that
  coordinate of every true position, the positions in row-major order.
\<close>

definition true_positions :: "bool list \<Rightarrow> nat list" where
  "true_positions d = filter (\<lambda>p. d ! p) [0..<length d]"

definition coordinate :: "nat list \<Rightarrow> nat \<Rightarrow> nat \<Rightarrow> nat" where
  "coordinate shp k p = (p div prod_list (drop (Suc k) shp)) mod (shp ! k)"

definition np_nonzero :: "nat list \<Rightarrow> bool list \<Rightarrow> key" where
  "np_nonzero shp d =
     KTuple (map (\<lambda>k. KIntArray [length (true_positions d)]
                        (map (\<lambda>p. int (coordinate shp k p)) (true_positions d)))
               [0..<length shp])"

text \<open>Running a function that can raise over a list, left to right.\<close>

fun map_raise :: "('a \<Rightarrow> error + 'b) \<Rightarrow> 'a list \<Rightarrow> error + 'b list" where
  "map_raise f [] = Inr []"
| "map_raise f (x # xs) =
     (case f x of
        Inl e \<Rightarrow> Inl e
      | Inr y \<Rightarrow> (case map_raise f xs of Inl e \<Rightarrow> Inl e | Inr ys \<Rightarrow> Inr (y # ys)))"

subsection \<open>Sources and the composite array\<close>

text \<open>
  A Source is an external object: its \<^verbatim>\<open>len\<close>, its \<^verbatim>\<open>shape\<close>, its \<^verbatim>\<open>dtype\<close> and its
  own \<^verbatim>\<open>__getitem__\<close>, which the composite calls with an integer (\<open>KInt idx\<close>) or with
  the tuple \<^verbatim>\<open>(idx,) + key_remainder\<close> (\<open>KTuple (KInt idx # key_remainder)\<close>).
\<close>

record 'v source =
  src_len :: nat
  src_shape :: "nat list"
  src_dtype :: dtype
  src_getitem :: "key \<Rightarrow> error + 'v ndarray"

record 'v multi_source_array =
  source_list :: "'v source list"
  class_list :: "int list option"
  shuffle :: bool
  num_items :: nat
  arr_dtype :: dtype
  arr_shape :: "nat list"
  arr_ndim :: nat
  index_pairs :: "(nat \<times> nat) list"

text \<open>The loop of lines 41-45: the first source that differs decides the exception.\<close>

fun check_sources :: "nat list \<Rightarrow> dtype \<Rightarrow> 'v source list \<Rightarrow> error option" where
  "check_sources tail dt [] = None"
| "check_sources tail dt (s # ss) =
     (if drop 1 (src_shape s) \<noteq> tail then Some ValueError
      else if src_dtype s \<noteq> dt then Some TypeError
      else check_sources tail dt ss)"

text \<open>The loops of lines 50-52, from source number \<open>i\<close> on.\<close>

fun enumerate_pairs :: "nat \<Rightarrow> 'v source list \<Rightarrow> (nat \<times> nat) list" where
  "enumerate_pairs i [] = []"
| "enumerate_pairs i (s # ss) = map (\<lambda>j. (i, j)) [0..<src_len s] @ enumerate_pairs (Suc i) ss"

text \<open>
  The constructor. \<open>rng\<close> is the permutation that \<^verbatim>\<open>np.random.shuffle\<close> applies to the
  list of index pairs, a parameter since it is random.
\<close>

definition multi_source_array_init ::
    "((nat \<times> nat) list \<Rightarrow> (nat \<times> nat) list) \<Rightarrow> 'v source list \<Rightarrow> int list option \<Rightarrow> bool
      \<Rightarrow> error + 'v multi_source_array" where
  "multi_source_array_init rng sl cl shuf =
     (let n = sum_list (map src_len sl) in
      case sl of
        [] \<Rightarrow> Inl IndexError
      | s0 # _ \<Rightarrow>
          (let dt = src_dtype s0;
               shp = n # drop 1 (src_shape s0)
           in case check_sources (drop 1 shp) dt sl of
                Some e \<Rightarrow> Inl e
              | None \<Rightarrow>
                  Inr \<lparr>source_list = sl, class_list = cl, shuffle = shuf, num_items = n,
                       arr_dtype = dt, arr_shape = shp, arr_ndim = length shp,
                       index_pairs = (if shuf then rng (enumerate_pairs 0 sl)
                                      else enumerate_pairs 0 sl)\<rparr>))"

text \<open>
  \<^verbatim>\<open>get_labels\<close>: \<^verbatim>\<open>not self.class_list\<close> holds for \<^verbatim>\<open>None\<close> and for the empty list.
\<close>

definition get_labels :: "'v multi_source_array \<Rightarrow> error + int list" where
  "get_labels arr =
     map_raise (\<lambda>p. case class_list arr of
                       None \<Rightarrow> Inr (int (fst p))
                     | Some cl \<Rightarrow> if cl = [] then Inr (int (fst p))
                                 else py_index cl (int (fst p)))
       (index_pairs arr)"

definition len_arr :: "'v multi_source_array \<Rightarrow> nat" where
  "len_arr arr = num_items arr"

subsection \<open>Indexing\<close>

definition get_element ::
    "'v multi_source_array \<Rightarrow> key \<Rightarrow> key list option \<Rightarrow> error + 'v ndarray" where
  "get_element arr int_key key_remainder =
     (case int_key of
        KInt k \<Rightarrow>
          (case py_index (index_pairs arr) k of
             Inl e \<Rightarrow> Inl e
           | Inr (source_num, idx) \<Rightarrow>
               (case py_index (source_list arr) (int source_num) of
                  Inl e \<Rightarrow> Inl e
                | Inr src \<Rightarrow>
                    src_getitem src
                      (case key_remainder of
                         None \<Rightarrow> KInt (int idx)
                       | Some rem \<Rightarrow> KTuple (KInt (int idx) # rem))))
      | _ \<Rightarrow> Inl IndexError)"

text \<open>
  Lines 82-91: the remainder that row \<open>i\<close> receives. \<open>is_seq\<close> is
  \<^verbatim>\<open>isinstance(values, tuple) or isinstance(values, list)\<close>.
\<close>

definition row_component :: "nat \<Rightarrow> key \<Rightarrow> error + key" where
  "row_component i k =
     (if has_len k then
        (case key_len k of
           Inl e \<Rightarrow> Inl e
         | Inr n \<Rightarrow> if n = np_size k then key_getitem k i else Inr k)
      else Inr k)"

definition row_key_remainder ::
    "bool \<Rightarrow> nat \<Rightarrow> key list option \<Rightarrow> error + key list option" where
  "row_key_remainder is_seq i key_remainder =
     (if is_seq then
        (case key_remainder of
           None \<Rightarrow> Inr None
         | Some rem \<Rightarrow>
             (case map_raise (row_component i) rem of
                Inl e \<Rightarrow> Inl e
              | Inr rem' \<Rightarrow> Inr (Some rem')))
      else Inr key_remainder)"

text \<open>
  The loop of \<^verbatim>\<open>_get_block\<close>, at counter \<open>i\<close>, with \<open>n\<close> the value of
  \<^verbatim>\<open>len(values)\<close> and \<open>item_block\<close> the buffer (\<open>None\<close> until the first
  element has been read).
\<close>

fun get_block_loop ::
    "('v::zero) multi_source_array \<Rightarrow> bool \<Rightarrow> key list option \<Rightarrow> nat
      \<Rightarrow> 'v ndarray option \<Rightarrow> nat \<Rightarrow> key list \<Rightarrow> error + 'v ndarray option" where
  "get_block_loop arr is_seq key_remainder n item_block i [] = Inr item_block"
| "get_block_loop arr is_seq key_remainder n item_block i (v # vs) =
     (case row_key_remainder is_seq i key_remainder of
        Inl e \<Rightarrow> Inl e
      | Inr v_key_remainder \<Rightarrow>
          (case get_element arr v v_key_remainder of
             Inl e \<Rightarrow> Inl e
           | Inr elem \<Rightarrow>
               (case np_setitem
                       (case item_block of
                          None \<Rightarrow> np_zeros (n # nd_shape elem) (arr_dtype arr)
                        | Some b \<Rightarrow> b)
                       i elem of
                  Inl e \<Rightarrow> Inl e
                | Inr b' \<Rightarrow> get_block_loop arr is_seq key_remainder n (Some b') (Suc i) vs)))"

fun is_list_or_tuple :: "key \<Rightarrow> bool" where
  "is_list_or_tuple (KList _) = True"
| "is_list_or_tuple (KTuple _) = True"
| "is_list_or_tuple _ = False"

definition get_block ::
    "('v::zero) multi_source_array \<Rightarrow> key \<Rightarrow> key list option \<Rightarrow> error + 'v ndarray option" where
  "get_block arr values key_remainder =
     (case key_iter values of
        Inl e \<Rightarrow> Inl e
      | Inr vs \<Rightarrow>
          get_block_loop arr (is_list_or_tuple values) key_remainder (length vs) None 0 vs)"

text \<open>
  Lines 106-139 of \<^verbatim>\<open>__getitem__\<close>: the key for the first dimension and the
  remainder. A boolean array is checked for its number of dimensions and replaced by
  its \<^verbatim>\<open>nonzero()\<close>; any other array of more than one dimension is refused.
\<close>

fun is_tuple :: "key \<Rightarrow> bool" where
  "is_tuple (KTuple _) = True"
| "is_tuple _ = False"

fun convert_array_key :: "nat \<Rightarrow> key \<Rightarrow> error + key" where
  "convert_array_key ndim (KBoolArray shp d) =
     (if length shp \<noteq> ndim then Inl IndexError else Inr (np_nonzero shp d))"
| "convert_array_key ndim (KIntArray shp d) =
     (if 1 < length shp then Inl IndexError else Inr (KIntArray shp d))"
| "convert_array_key ndim k = Inr k"

definition split_key ::
    "'v multi_source_array \<Rightarrow> key \<Rightarrow> error + key \<times> key list option" where
  "split_key arr key0 =
     (if has_len key0 then
        (case convert_array_key (arr_ndim arr) key0 of
           Inl e \<Rightarrow> Inl e
         | Inr key1 \<Rightarrow>
             (case key_iter key1 of
                Inl e \<Rightarrow> Inl e
              | Inr ks \<Rightarrow>
                  (let key_shapes = map np_shape (filter has_len ks) in
                   if list_ex (\<lambda>s. s \<noteq> hd key_shapes) key_shapes then Inl IndexError
                   else if arr_ndim arr < length key_shapes then Inl IndexError
                   else if key_shapes \<noteq> [] \<or> is_tuple key1 then
                     (case key_tail key1 of
                        Inl e \<Rightarrow> Inl e
                      | Inr rem \<Rightarrow>
                          (case key_getitem key1 0 of
                             Inl e \<Rightarrow> Inl e
                           | Inr k0 \<Rightarrow> Inr (k0, Some rem)))
                   else Inr (key1, None))))
      else Inr (key0, None))"

text \<open>Lines 142-145: an ellipsis stands for the whole first dimension.\<close>

definition expand_ellipsis ::
    "'v multi_source_array \<Rightarrow> key \<times> key list option \<Rightarrow> key \<times> key list option" where
  "expand_ellipsis arr kr =
     (case kr of (k, key_remainder) \<Rightarrow>
        if k = KEllipsis then
          (KSlice (Some 0) (Some (int (num_items arr))) None,
           (case key_remainder of
              None \<Rightarrow> None
            | Some rem \<Rightarrow>
                if length rem < arr_ndim arr - 1 then Some (KEllipsis # rem) else Some rem))
        else (k, key_remainder))"

text \<open>
  Lines 149-161. The result is \<open>None\<close> when \<^verbatim>\<open>_get_block\<close> was given no index at all:
  its buffer is only allocated when the first element has been read.
\<close>

definition dispatch ::
    "('v::zero) multi_source_array \<Rightarrow> key \<times> key list option \<Rightarrow> error + 'v ndarray option" where
  "dispatch arr kr =
     (case kr of (k, key_remainder) \<Rightarrow>
        (case k of
           KInt i \<Rightarrow>
             (case get_element arr k key_remainder of
                Inl e \<Rightarrow> Inl e
              | Inr elem \<Rightarrow> Inr (Some elem))
         | KSlice st sp stp \<Rightarrow>
             (case py_range (case st of None \<Rightarrow> 0 | Some v \<Rightarrow> v)
                     (case sp of None \<Rightarrow> int (num_items arr) | Some v \<Rightarrow> v)
                     (case stp of None \<Rightarrow> 1 | Some v \<Rightarrow> v) of
                Inl e \<Rightarrow> Inl e
              | Inr r \<Rightarrow> get_block arr r key_remainder)
         | _ \<Rightarrow> if has_len k then get_block arr k key_remainder else Inl IndexError))"

definition get :: "('v::zero) multi_source_array \<Rightarrow> key \<Rightarrow> error + 'v ndarray option" where
  "get arr k =
     (case split_key arr k of
        Inl e \<Rightarrow> Inl e
      | Inr kr \<Rightarrow> dispatch arr (expand_ellipsis arr kr))"

subsection \<open>The stack of the spec, and a numpy array as a Source\<close>

text \<open>
  The spec's words for a block: the stack of the rows, in order, in a buffer of the
  composite's element type. This definition follows the spec, not the code.
\<close>

definition np_stack :: "dtype \<Rightarrow> 'v ndarray list \<Rightarrow> 'v ndarray" where
  "np_stack dt es =
     \<lparr>nd_shape = length es # (case es of [] \<Rightarrow> [] | e # _ \<Rightarrow> nd_shape e),
      nd_dtype = dt, nd_flat = concat (map nd_flat es)\<rparr>"

text \<open>
  The Sources of the examples are numpy arrays. \<open>nd_getitem\<close> is the part of numpy's
  own indexing that the examples use: an integer, a tuple of one or two integers, and
  a tuple of an integer and a list of integers.
\<close>

definition nd_row_at :: "'v ndarray \<Rightarrow> int \<Rightarrow> error + 'v ndarray" where
  "nd_row_at a i =
     (case nd_shape a of
        [] \<Rightarrow> Inl IndexError
      | n # _ \<Rightarrow> (case py_index [0..<n] i of Inl e \<Rightarrow> Inl e | Inr j \<Rightarrow> Inr (np_row a j)))"

fun nd_pick :: "'v ndarray \<Rightarrow> key \<Rightarrow> error + 'v ndarray" where
  "nd_pick a (KInt j) = nd_row_at a j"
| "nd_pick a _ = Inl IndexError"

fun nd_getitem :: "'v ndarray \<Rightarrow> key \<Rightarrow> error + 'v ndarray" where
  "nd_getitem a (KInt i) = nd_row_at a i"
| "nd_getitem a (KTuple [KInt i]) = nd_row_at a i"
| "nd_getitem a (KTuple [KInt i, KInt j]) =
     (case nd_row_at a i of Inl e \<Rightarrow> Inl e | Inr r \<Rightarrow> nd_row_at r j)"
| "nd_getitem a (KTuple [KInt i, KList js]) =
     (case nd_row_at a i of
        Inl e \<Rightarrow> Inl e
      | Inr r \<Rightarrow>
          (case map_raise (nd_pick r) js of
             Inl e \<Rightarrow> Inl e
           | Inr es \<Rightarrow> Inr \<lparr>nd_shape = length js # drop 2 (nd_shape a),
                            nd_dtype = nd_dtype a, nd_flat = concat (map nd_flat es)\<rparr>))"
| "nd_getitem a _ = Inl IndexError"

definition array_source :: "'v ndarray \<Rightarrow> 'v source" where
  "array_source a =
     \<lparr>src_len = (case nd_shape a of [] \<Rightarrow> 0 | n # _ \<Rightarrow> n), src_shape = nd_shape a,
      src_dtype = nd_dtype a, src_getitem = nd_getitem a\<rparr>"

text \<open>
  The composite of the examples: a Source of 3 rows and a Source of 2 rows, each row
  of 2 values, not shuffled; and a composite over one Source of 3 scalars.
\<close>

definition example_a :: "int ndarray" where
  "example_a = \<lparr>nd_shape = [3, 2], nd_dtype = Float32, nd_flat = [10, 11, 20, 21, 30, 31]\<rparr>"

definition example_b :: "int ndarray" where
  "example_b = \<lparr>nd_shape = [2, 2], nd_dtype = Float32, nd_flat = [40, 41, 50, 51]\<rparr>"

definition example_array :: "int multi_source_array" where
  "example_array =
     \<lparr>source_list = [array_source example_a, array_source example_b], class_list = None,
      shuffle = False, num_items = 5, arr_dtype = Float32, arr_shape = [5, 2], arr_ndim = 2,
      index_pairs = [(0, 0), (0, 1), (0, 2), (1, 0), (1, 1)]\<rparr>"

definition example_v :: "int ndarray" where
  "example_v = \<lparr>nd_shape = [3], nd_dtype = Int64, nd_flat = [7, 8, 9]\<rparr>"

definition example_vector :: "int multi_source_array" where
  "example_vector =
     \<lparr>source_list = [array_source example_v], class_list = None,
      shuffle = False, num_items = 3, arr_dtype = Int64, arr_shape = [3], arr_ndim = 1,
      index_pairs = [(0, 0), (0, 1), (0, 2)]\<rparr>"

text \<open>
  A Source that answers an integer index only (rows kept in a Python list, say, with a
  shape and an element type attached): any other key, the tuple \<^verbatim>\<open>(idx,)\<close> included, is
  a \<^verbatim>\<open>TypeError\<close>. The composite over one such Source of 3 scalars.
\<close>

definition int_only_source :: "'v ndarray \<Rightarrow> 'v source" where
  "int_only_source a =
     \<lparr>src_len = (case nd_shape a of [] \<Rightarrow> 0 | n # _ \<Rightarrow> n), src_shape = nd_shape a,
      src_dtype = nd_dtype a,
      src_getitem = (\<lambda>k. case k of KInt i \<Rightarrow> nd_row_at a i | _ \<Rightarrow> Inl TypeError)\<rparr>"

definition example_int_only :: "int multi_source_array" where
  "example_int_only =
     \<lparr>source_list = [int_only_source example_v], class_list = None,
      shuffle = False, num_items = 3, arr_dtype = Int64, arr_shape = [3], arr_ndim = 1,
      index_pairs = [(0, 0), (0, 1), (0, 2)]\<rparr>"

subsection \<open>Multi-part keys in the words of the spec\<close>



text \<open>
  Stacking the results of single-element reads, in order, into a buffer of \<open>n\<close> rows
  that is allocated from the shape of the first element read; the first exception, of
  a read or of an assignment, ends it. Without any read there is no buffer.
\<close>

fun stack_reads ::
    "dtype \<Rightarrow> nat \<Rightarrow> ('v::zero) ndarray option \<Rightarrow> nat \<Rightarrow> (error + 'v ndarray) list
      \<Rightarrow> error + 'v ndarray option" where
  "stack_reads dt n blk i [] = Inr blk"
| "stack_reads dt n blk i (r # rs) =
     (case r of
        Inl e \<Rightarrow> Inl e
      | Inr elem \<Rightarrow>
          (case np_setitem (case blk of None \<Rightarrow> np_zeros (n # nd_shape elem) dt | Some b \<Rightarrow> b)
                  i elem of
             Inl e \<Rightarrow> Inl e
           | Inr b' \<Rightarrow> stack_reads dt n (Some b') (Suc i) rs))"

subsection \<open>A writer whose storage array is too short\<close>

text \<open>
  A writer of batch size 3 over a storage array of 2 rows, with no declared length; one
  element is written and flushed, then two more are written.
\<close>

definition example_element :: "int ndarray" where
  "example_element = \<lparr>nd_shape = [2], nd_dtype = Float32, nd_flat = [1, 2]\<rparr>"

definition and_then :: "error + 'a \<Rightarrow> ('a \<Rightarrow> error + 'b) \<Rightarrow> error + 'b" where
  "and_then r f = (case r of Inl e \<Rightarrow> Inl e | Inr x \<Rightarrow> f x)"

definition example_calls :: "error + int buffered_array_writer" where
  "example_calls =
     and_then
       (and_then
          (and_then
             (buffered_write
                (buffered_array_writer_init (Some (np_zeros [2, 2] Float32)) [2] Float32 3 None)
                example_element)
             flush_buffer)
          (\<lambda>w. buffered_write w example_element))
       (\<lambda>w. buffered_write w example_element)"

definition example_writer :: "int buffered_array_writer" where
  "example_writer =
     \<lparr>storage_array = Some \<lparr>nd_shape = [2, 2], nd_dtype = Float32, nd_flat = [1, 2, 0, 0]\<rparr>,
      data_element_shape = [2], dtype = Float32, batch_size = 3, length_w = None,
      buffer = \<lparr>nd_shape = [3, 2], nd_dtype = Float32, nd_flat = [1, 2, 1, 2, 0, 0]\<rparr>,
      buffer_ptr = 2, storage_array_ptr = 1\<rparr>"

section \<open>\<^verbatim>\<open>data_flow\<close> (io.py)\<close>

subsection \<open>Construction and the batches of the loader\<close>

record 'a data_flow =
  df_data :: "'a list list"
  df_batch_size :: int
  nb_workers :: nat
  df_shuffle :: bool
  loop_forever :: bool
  num_batches :: int

text \<open>
  The constructor: the assertion of line 29 on every source, then the batch count of
  lines 31-33 (\<^verbatim>\<open>//\<close> and \<^verbatim>\<open>%\<close> round as \<open>div\<close> and \<open>mod\<close> on \<open>int\<close> do).
\<close>

definition data_flow_init ::
    "'a list list \<Rightarrow> int \<Rightarrow> nat \<Rightarrow> bool \<Rightarrow> bool \<Rightarrow> error + 'a data_flow" where
  "data_flow_init data bs nw shuf forever =
     (case data of
        [] \<Rightarrow> Inl IndexError
      | d0 # _ \<Rightarrow>
          if list_ex (\<lambda>d. length d \<noteq> length d0) data then Inl AssertionError
          else if bs = 0 then Inl ZeroDivisionError
          else Inr \<lparr>df_data = data, df_batch_size = bs, nb_workers = nw, df_shuffle = shuf,
                    loop_forever = forever,
                    num_batches = int (length d0) div bs
                                  + (if 0 < int (length d0) mod bs then 1 else 0)\<rparr>)"

text \<open>\<^verbatim>\<open>__len__\<close>: the length of the first source.\<close>

definition len_flow :: "'a data_flow \<Rightarrow> nat" where
  "len_flow df = (case df_data df of [] \<Rightarrow> 0 | d0 # _ \<Rightarrow> length d0)"

text \<open>
  The index order of an epoch: \<^verbatim>\<open>np.arange(len(self))\<close>, or the permutation that
  \<^verbatim>\<open>np.random.permutation\<close> draws for this epoch, a parameter since it is random.
\<close>

definition epoch_indices :: "'a data_flow \<Rightarrow> (nat \<Rightarrow> nat list) \<Rightarrow> nat \<Rightarrow> nat list" where
  "epoch_indices df perm e = (if df_shuffle df then perm e else [0..<len_flow df])"

text \<open>
  Lines 133-137: batch \<open>b\<close> of an index order, one list of elements per source. The
  loop body only runs for a positive batch size (the batch count is not positive
  otherwise), so the slice bounds are natural numbers.
\<close>

definition load_batch :: "'a data_flow \<Rightarrow> nat list \<Rightarrow> nat \<Rightarrow> error + 'a list list" where
  "load_batch df indices b =
     map_raise
       (\<lambda>d. map_raise (\<lambda>i. py_index d (int i))
               (take (nat (df_batch_size df)) (drop (b * nat (df_batch_size df)) indices)))
       (df_data df)"

subsection \<open>One streaming invocation as interleaved steps\<close>

text \<open>
  \<^verbatim>\<open>flow\<close> runs three kinds of sequential code side by side: the loader thread
  (\<^verbatim>\<open>_preload_subroutine\<close>), the worker processes (\<^verbatim>\<open>_process_subroutine\<close>) and the
  consumer loop of \<^verbatim>\<open>flow\<close> itself. Each is a program counter; a step of one of them
  is one queue or flag operation, taken as atomic. The two queues are
  \<^verbatim>\<open>JoinableQueue\<close>s: their items in order, and the count of items put and not yet
  acknowledged by \<^verbatim>\<open>task_done\<close>, which \<^verbatim>\<open>join\<close> waits to be zero. In the result queue
  \<open>None\<close> is the sentinel.
\<close>

datatype lpc =
    L_while nat
  | L_for nat nat
  | L_put nat nat
  | L_drain nat
  | L_joinload nat
  | L_joinproc nat
  | L_putNone nat
  | L_joinproc2 nat
  | L_setstop nat
  | L_done

datatype 'b wpc =
    W_while
  | W_get
  | W_getB
  | W_getNB
  | W_put 'b
  | W_taskdone
  | W_joinload
  | W_joinproc
  | W_setstop
  | W_done

datatype 'b cpc =
    C_while
  | C_get
  | C_have "'b option"
  | C_yield
  | C_taskdone
  | C_finally
  | C_drain_proc
  | C_drain_load
  | C_join_workers
  | C_join_loader
  | C_done

text \<open>
  Besides the queues (with the \<^verbatim>\<open>close\<close> of the cleanup, after which a \<^verbatim>\<open>put\<close> from the
  host process raises), the flags and the program counters, the state keeps what the
  properties speak about: the batches yielded to the caller, the items the consumer
  has pulled, the unfinished counts of both queues at every push of a sentinel, and the
  first exception raised in any stage.
\<close>

record 'b flow_state =
  load_queue :: "'b list"
  load_unfinished :: nat
  proc_queue :: "'b option list"
  proc_unfinished :: nat
  load_closed :: bool
  proc_closed :: bool
  stop :: bool
  stop_on_empty :: bool
  loader :: lpc
  workers :: "'b wpc list"
  consumer :: "'b cpc"
  yielded :: "'b list"
  pulled :: "'b option list"
  sentinels :: "(nat \<times> nat) list"
  fault :: "error option"

definition init_state :: "'a data_flow \<Rightarrow> 'a list list flow_state" where
  "init_state df =
     \<lparr>load_queue = [], load_unfinished = 0, proc_queue = [], proc_unfinished = 0,
      load_closed = False, proc_closed = False, stop = False, stop_on_empty = False, loader = L_while 0,
      workers = replicate (nb_workers df) W_while, consumer = C_while,
      yielded = [], pulled = [], sentinels = [], fault = None\<rparr>"

text \<open>A queue of \<^verbatim>\<open>maxsize = nb_workers\<close> is full at that many items (never, for 0).\<close>

definition full :: "'a data_flow \<Rightarrow> 'c list \<Rightarrow> bool" where
  "full df q = (0 < nb_workers df \<and> nb_workers df \<le> length q)"

text \<open>
  The loader. \<open>None\<close> is a blocked operation (a \<^verbatim>\<open>put\<close> on a full queue, a \<^verbatim>\<open>join\<close> on
  unfinished items) or a finished thread. An exception while a batch is gathered or
  put sets the stop flag and ends the thread (lines 139-141); the \<^verbatim>\<open>put\<close> of the
  sentinel is outside that \<^verbatim>\<open>try\<close>, so an exception there only ends the thread. The
  loader is a thread of the host process, whose cleanup closes the queues: a \<^verbatim>\<open>put\<close> on
  a closed queue raises \<^verbatim>\<open>ValueError\<close>.
\<close>

definition loader_step ::
    "'a data_flow \<Rightarrow> (nat \<Rightarrow> nat list) \<Rightarrow> 'a list list flow_state
      \<Rightarrow> 'a list list flow_state option" where
  "loader_step df perm s =
     (case loader s of
        L_while e \<Rightarrow>
          if stop s then Some (s\<lparr>loader := L_done\<rparr>) else Some (s\<lparr>loader := L_for e 0\<rparr>)
      | L_for e b \<Rightarrow>
          if int b < num_batches df then
            (if stop s then Some (s\<lparr>loader := L_for e (Suc b)\<rparr>)
             else Some (s\<lparr>loader := L_put e b\<rparr>))
          else if loop_forever df then Some (s\<lparr>loader := L_while (Suc e)\<rparr>)
          else Some (s\<lparr>loader := L_drain e\<rparr>)
      | L_put e b \<Rightarrow>
          (case load_batch df (epoch_indices df perm e) b of
             Inl err \<Rightarrow>
               Some (s\<lparr>stop := True, loader := L_done,
                       fault := (case fault s of None \<Rightarrow> Some err | Some f \<Rightarrow> Some f)\<rparr>)
           | Inr batch \<Rightarrow>
               if load_closed s
               then Some (s\<lparr>stop := True, loader := L_done,
                            fault := (case fault s of None \<Rightarrow> Some ValueError
                                      | Some f \<Rightarrow> Some f)\<rparr>)
               else if full df (load_queue s) then None
               else Some (s\<lparr>load_queue := load_queue s @ [batch],
                             load_unfinished := Suc (load_unfinished s),
                             loader := L_for e (Suc b)\<rparr>))
      | L_drain e \<Rightarrow> Some (s\<lparr>stop_on_empty := True, loader := L_joinload e\<rparr>)
      | L_joinload e \<Rightarrow>
          if load_unfinished s = 0 then Some (s\<lparr>loader := L_joinproc e\<rparr>) else None
      | L_joinproc e \<Rightarrow>
          if proc_unfinished s = 0 then Some (s\<lparr>loader := L_putNone e\<rparr>) else None
      | L_putNone e \<Rightarrow>
          if proc_closed s
          then Some (s\<lparr>loader := L_done,
                       fault := (case fault s of None \<Rightarrow> Some ValueError
                                 | Some f \<Rightarrow> Some f)\<rparr>)
          else if full df (proc_queue s) then None
          else Some (s\<lparr>proc_queue := proc_queue s @ [None],
                        proc_unfinished := Suc (proc_unfinished s),
                        sentinels := sentinels s @ [(load_unfinished s, proc_unfinished s)],
                        loader := L_joinproc2 e\<rparr>)
      | L_joinproc2 e \<Rightarrow>
          if proc_unfinished s = 0 then Some (s\<lparr>loader := L_setstop e\<rparr>) else None
      | L_setstop e \<Rightarrow> Some (s\<lparr>stop := True, loader := L_while (Suc e)\<rparr>)
      | L_done \<Rightarrow> None)"

text \<open>
  Worker \<open>i\<close>. \<open>W_get\<close> evaluates the argument \<^verbatim>\<open>block=not stop_on_empty.is_set()\<close>,
  then the \<^verbatim>\<open>get\<close> blocks (\<open>W_getB\<close>) or not (\<open>W_getNB\<close>, where an empty queue raises
  \<^verbatim>\<open>queue.Empty\<close> and leads to the two joins and \<^verbatim>\<open>stop.set()\<close>). The transform
  \<^verbatim>\<open>_process_batch\<close> is the identity of the source. A \<^verbatim>\<open>task_done\<close> with nothing
  unfinished raises \<^verbatim>\<open>ValueError\<close>, which sets the stop flag and ends the process.
\<close>

definition worker_step ::
    "'a data_flow \<Rightarrow> nat \<Rightarrow> 'b flow_state \<Rightarrow> 'b flow_state option" where
  "worker_step df i s =
     (if length (workers s) \<le> i then None
      else (case workers s ! i of
          W_while \<Rightarrow>
            if stop s then Some (s\<lparr>workers := (workers s)[i := W_done]\<rparr>)
            else Some (s\<lparr>workers := (workers s)[i := W_get]\<rparr>)
        | W_get \<Rightarrow>
            if stop_on_empty s then Some (s\<lparr>workers := (workers s)[i := W_getNB]\<rparr>)
            else Some (s\<lparr>workers := (workers s)[i := W_getB]\<rparr>)
        | W_getB \<Rightarrow>
            (case load_queue s of
               [] \<Rightarrow> None
             | x # q \<Rightarrow> Some (s\<lparr>load_queue := q, workers := (workers s)[i := W_put x]\<rparr>))
        | W_getNB \<Rightarrow>
            (case load_queue s of
               [] \<Rightarrow> Some (s\<lparr>workers := (workers s)[i := W_joinload]\<rparr>)
             | x # q \<Rightarrow> Some (s\<lparr>load_queue := q, workers := (workers s)[i := W_put x]\<rparr>))
        | W_put x \<Rightarrow>
            if full df (proc_queue s) then None
            else Some (s\<lparr>proc_queue := proc_queue s @ [Some x],
                          proc_unfinished := Suc (proc_unfinished s),
                          workers := (workers s)[i := W_taskdone]\<rparr>)
        | W_taskdone \<Rightarrow>
            if load_unfinished s = 0
            then Some (s\<lparr>stop := True, workers := (workers s)[i := W_done],
                         fault := (case fault s of None \<Rightarrow> Some ValueError | Some f \<Rightarrow> Some f)\<rparr>)
            else Some (s\<lparr>load_unfinished := load_unfinished s - 1,
                          workers := (workers s)[i := W_while]\<rparr>)
        | W_joinload \<Rightarrow>
            if load_unfinished s = 0 then Some (s\<lparr>workers := (workers s)[i := W_joinproc]\<rparr>)
            else None
        | W_joinproc \<Rightarrow>
            if proc_unfinished s = 0 then Some (s\<lparr>workers := (workers s)[i := W_setstop]\<rparr>)
            else None
        | W_setstop \<Rightarrow> Some (s\<lparr>stop := True, workers := (workers s)[i := W_while]\<rparr>)
        | W_done \<Rightarrow> None))"

text \<open>
  The consumer loop of \<^verbatim>\<open>flow\<close>. At \<open>C_yield\<close> the generator is suspended in its
  \<^verbatim>\<open>yield\<close>, the batch handed to the caller; the step of the consumer from there is the
  caller asking for the next batch. Then the \<^verbatim>\<open>finally\<close> block: \<^verbatim>\<open>stop.set()\<close>, both
  queues emptied without acknowledgement and closed, and the joins, which wait for
  every worker and for the loader to have ended.
\<close>

definition consumer_step :: "'b flow_state \<Rightarrow> 'b flow_state option" where
  "consumer_step s =
     (case consumer s of
        C_while \<Rightarrow>
          if stop s then Some (s\<lparr>consumer := C_finally\<rparr>) else Some (s\<lparr>consumer := C_get\<rparr>)
      | C_get \<Rightarrow>
          (case proc_queue s of
             [] \<Rightarrow> None
           | x # q \<Rightarrow> Some (s\<lparr>proc_queue := q, pulled := pulled s @ [x],
                               consumer := C_have x\<rparr>))
      | C_have x \<Rightarrow>
          (case x of
             None \<Rightarrow> Some (s\<lparr>consumer := C_taskdone\<rparr>)
           | Some batch \<Rightarrow> Some (s\<lparr>yielded := yielded s @ [batch], consumer := C_yield\<rparr>))
      | C_yield \<Rightarrow> Some (s\<lparr>consumer := C_taskdone\<rparr>)
      | C_taskdone \<Rightarrow>
          if proc_unfinished s = 0
          then Some (s\<lparr>stop := True, consumer := C_finally,
                       fault := (case fault s of None \<Rightarrow> Some ValueError | Some f \<Rightarrow> Some f)\<rparr>)
          else Some (s\<lparr>proc_unfinished := proc_unfinished s - 1, consumer := C_while\<rparr>)
      | C_finally \<Rightarrow> Some (s\<lparr>stop := True, consumer := C_drain_proc\<rparr>)
      | C_drain_proc \<Rightarrow>
          (case proc_queue s of
             [] \<Rightarrow> Some (s\<lparr>proc_closed := True, consumer := C_drain_load\<rparr>)
           | x # q \<Rightarrow> Some (s\<lparr>proc_queue := q\<rparr>))
      | C_drain_load \<Rightarrow>
          (case load_queue s of
             [] \<Rightarrow> Some (s\<lparr>load_closed := True, consumer := C_join_workers\<rparr>)
           | x # q \<Rightarrow> Some (s\<lparr>load_queue := q\<rparr>))
      | C_join_workers \<Rightarrow>
          if list_all (\<lambda>w. w = W_done) (workers s) then Some (s\<lparr>consumer := C_join_loader\<rparr>)
          else None
      | C_join_loader \<Rightarrow>
          if loader s = L_done then Some (s\<lparr>consumer := C_done\<rparr>) else None
      | C_done \<Rightarrow> None)"

text \<open>
  The caller may instead close the generator while it is suspended: \<^verbatim>\<open>GeneratorExit\<close> is
  raised at the \<^verbatim>\<open>yield\<close>, and the bare \<^verbatim>\<open>except\<close> of line 77 sets the stop flag and
  re-raises into the \<^verbatim>\<open>finally\<close> block.
\<close>

definition close_step :: "'b flow_state \<Rightarrow> 'b flow_state option" where
  "close_step s =
     (case consumer s of
        C_yield \<Rightarrow>
          Some (s\<lparr>stop := True, consumer := C_finally,
                  fault := (case fault s of None \<Rightarrow> Some GeneratorExit | Some f \<Rightarrow> Some f)\<rparr>)
      | _ \<Rightarrow> None)"

datatype tid = Loader | Worker nat | Consumer | Close

fun thread_step ::
    "'a data_flow \<Rightarrow> (nat \<Rightarrow> nat list) \<Rightarrow> tid \<Rightarrow> 'a list list flow_state
      \<Rightarrow> 'a list list flow_state option" where
  "thread_step df perm Loader s = loader_step df perm s"
| "thread_step df perm (Worker i) s = worker_step df i s"
| "thread_step df perm Consumer s = consumer_step s"
| "thread_step df perm Close s = close_step s"

text \<open>The states of one streaming invocation, under any interleaving.\<close>

inductive reachable ::
    "'a data_flow \<Rightarrow> (nat \<Rightarrow> nat list) \<Rightarrow> 'a list list flow_state \<Rightarrow> bool"
  for df :: "'a data_flow" and perm :: "nat \<Rightarrow> nat list" where
  reachable_init: "reachable df perm (init_state df)"
| reachable_step:
    "reachable df perm s \<Longrightarrow> thread_step df perm t s = Some s' \<Longrightarrow> reachable df perm s'"

text \<open>A schedule is the order in which the threads take their steps.\<close>

fun run ::
    "'a data_flow \<Rightarrow> (nat \<Rightarrow> nat list) \<Rightarrow> tid list \<Rightarrow> 'a list list flow_state
      \<Rightarrow> 'a list list flow_state option" where
  "run df perm [] s = Some s"
| "run df perm (t # ts) s =
     (case thread_step df perm t s of None \<Rightarrow> None | Some s' \<Rightarrow> run df perm ts s')"

text \<open>The batches of epoch \<open>e\<close>, in the order the loader enqueues them.\<close>

definition epoch_batches ::
    "'a data_flow \<Rightarrow> (nat \<Rightarrow> nat list) \<Rightarrow> nat \<Rightarrow> (error + 'a list list) list" where
  "epoch_batches df perm e =
     map (load_batch df (epoch_indices df perm e)) [0..<nat (num_batches df)]"


subsection \<open>Predicates on the states of a streaming invocation\<close>

text \<open>A worker that has taken an item of the load queue and not yet acknowledged it.\<close>

fun holding :: "'b wpc \<Rightarrow> nat" where
  "holding (W_put x) = 1"
| "holding W_taskdone = 1"
| "holding _ = 0"

fun held :: "'b wpc \<Rightarrow> 'b list" where
  "held (W_put x) = [x]"
| "held _ = []"

text \<open>A worker that has found the drain flag set and not yet gone round its loop.\<close>

fun draining :: "'b wpc \<Rightarrow> bool" where
  "draining W_getNB = True"
| "draining W_joinload = True"
| "draining W_joinproc = True"
| "draining W_setstop = True"
| "draining _ = False"

text \<open>The consumer has pulled an item and not yet acknowledged it.\<close>

fun pulling :: "'b cpc \<Rightarrow> nat" where
  "pulling (C_have x) = 1"
| "pulling C_yield = 1"
| "pulling C_taskdone = 1"
| "pulling _ = 0"

fun in_hand :: "'b cpc \<Rightarrow> 'b list" where
  "in_hand (C_have (Some batch)) = [batch]"
| "in_hand _ = []"

fun cleaning :: "'b cpc \<Rightarrow> bool" where
  "cleaning C_finally = True"
| "cleaning C_drain_proc = True"
| "cleaning C_drain_load = True"
| "cleaning C_join_workers = True"
| "cleaning C_join_loader = True"
| "cleaning C_done = True"
| "cleaning _ = False"

text \<open>
  Where the loader is, when \<^verbatim>\<open>loop_forever\<close> is off: in its first and only epoch; past
  \<^verbatim>\<open>stop_on_empty.set()\<close>; past its first join; about to push the sentinel; past the
  push; past its own \<^verbatim>\<open>stop.set()\<close>.
\<close>

fun first_epoch :: "lpc \<Rightarrow> bool" where
  "first_epoch (L_while e) = (e \<le> 1)"
| "first_epoch (L_for e b) = (e = 0)"
| "first_epoch (L_put e b) = (e = 0)"
| "first_epoch (L_drain e) = (e = 0)"
| "first_epoch (L_joinload e) = (e = 0)"
| "first_epoch (L_joinproc e) = (e = 0)"
| "first_epoch (L_putNone e) = (e = 0)"
| "first_epoch (L_joinproc2 e) = (e = 0)"
| "first_epoch (L_setstop e) = (e = 0)"
| "first_epoch L_done = True"

fun drained :: "lpc \<Rightarrow> bool" where
  "drained (L_while e) = (0 < e)"
| "drained (L_for e b) = False"
| "drained (L_put e b) = False"
| "drained (L_drain e) = False"
| "drained _ = True"

fun load_settled :: "lpc \<Rightarrow> bool" where
  "load_settled (L_while e) = (0 < e)"
| "load_settled (L_for e b) = False"
| "load_settled (L_put e b) = False"
| "load_settled (L_drain e) = False"
| "load_settled (L_joinload e) = False"
| "load_settled _ = True"

fun pushing :: "lpc \<Rightarrow> bool" where
  "pushing (L_putNone e) = True"
| "pushing _ = False"

fun pushed :: "lpc \<Rightarrow> bool" where
  "pushed (L_while e) = (0 < e)"
| "pushed (L_joinproc2 e) = True"
| "pushed (L_setstop e) = True"
| "pushed L_done = True"
| "pushed _ = False"

fun stopped_by_loader :: "lpc \<Rightarrow> bool" where
  "stopped_by_loader (L_while e) = (0 < e)"
| "stopped_by_loader L_done = True"
| "stopped_by_loader _ = False"

fun putting :: "'a data_flow \<Rightarrow> lpc \<Rightarrow> bool" where
  "putting df (L_put e b) = (int b < num_batches df)"
| "putting df _ = True"

text \<open>The batches that the loader has still to enqueue, of the batches of its epoch.\<close>

fun to_load :: "'b list \<Rightarrow> lpc \<Rightarrow> 'b list" where
  "to_load batches (L_while 0) = batches"
| "to_load batches (L_for e b) = drop b batches"
| "to_load batches (L_put e b) = drop b batches"
| "to_load batches _ = []"

text \<open>The counters of the two queues cover their items and the items in hand.\<close>

definition counted :: "'b flow_state \<Rightarrow> bool" where
  "counted s =
     (length (load_queue s) + sum_list (map holding (workers s)) \<le> load_unfinished s
      \<and> length (proc_queue s) + pulling (consumer s) \<le> proc_unfinished s)"

text \<open>
  The order of the two flags: no fault has occurred, the loader is in its first epoch
  and gathers within the batch count, the drain flag is set exactly when the loader is
  past setting it, the stop flag only when the drain flag is, and a worker is on the
  drain path or the consumer in its cleanup only under the flag that leads there.
\<close>

definition flags_ordered :: "'a data_flow \<Rightarrow> 'b flow_state \<Rightarrow> bool" where
  "flags_ordered df s =
     (fault s = None
      \<and> first_epoch (loader s)
      \<and> putting df (loader s)
      \<and> stop_on_empty s = drained (loader s)
      \<and> (stop s \<longrightarrow> stop_on_empty s)
      \<and> (stopped_by_loader (loader s) \<longrightarrow> stop s)
      \<and> (\<forall>w\<in>set (workers s). draining w \<longrightarrow> stop_on_empty s)
      \<and> (cleaning (consumer s) \<longrightarrow> stop s))"

text \<open>
  The sentinel: past the first join of the loader nothing is unfinished in the load
  queue, when the sentinel is about to be pushed nothing is unfinished in the result
  queue either, and the log holds no push before and one push after, made with both
  counts at zero.
\<close>

definition sentinel_once :: "'b flow_state \<Rightarrow> bool" where
  "sentinel_once s =
     ((load_settled (loader s) \<longrightarrow> load_unfinished s = 0)
      \<and> (pushing (loader s) \<longrightarrow> proc_unfinished s = 0)
      \<and> sentinels s = (if pushed (loader s) then [(0, 0)] else []))"

text \<open>What the caller has been given is what the consumer pulled, without the sentinel.\<close>

definition never_surfaced :: "'b flow_state \<Rightarrow> bool" where
  "never_surfaced s = (List.map_filter id (pulled s) = yielded s @ in_hand (consumer s))"

text \<open>Gathering a batch raises nothing: the part of a fault-free run that is an input.\<close>

definition gathers :: "'a data_flow \<Rightarrow> (nat \<Rightarrow> nat list) \<Rightarrow> bool" where
  "gathers df perm =
     list_all (\<lambda>r. case r of Inl e \<Rightarrow> False | Inr x \<Rightarrow> True) (epoch_batches df perm 0)"

text \<open>
  With one worker, the batches of the epoch are, in order: those yielded, the one in
  the consumer's hand, those in the result queue, the one in the worker's hand, those
  in the load queue and those still to be loaded.
\<close>

definition conserved :: "'b list \<Rightarrow> 'b flow_state \<Rightarrow> bool" where
  "conserved batches s =
     (yielded s @ in_hand (consumer s) @ List.map_filter id (proc_queue s)
        @ concat (map held (workers s)) @ load_queue s @ to_load batches (loader s)
      = batches)"

text \<open>
  Every batch has been yielded when the stop flag is set, when a worker is about to
  set it, and from the moment the loader is about to push the sentinel; and a worker
  past its first join has found nothing unfinished in the load queue.
\<close>

definition all_yielded :: "'b list \<Rightarrow> 'b flow_state \<Rightarrow> bool" where
  "all_yielded batches s =
     ((stop s \<longrightarrow> yielded s = batches)
      \<and> (pushing (loader s) \<or> pushed (loader s) \<longrightarrow> yielded s = batches)
      \<and> (\<forall>w\<in>set (workers s). w = W_setstop \<longrightarrow> yielded s = batches)
      \<and> (\<forall>w\<in>set (workers s). w = W_joinproc \<or> w = W_setstop \<longrightarrow> load_unfinished s = 0))"

section \<open>Properties of the writers\<close>

lemma flush_buffer_empty: "buffer_ptr w = 0 \<Longrightarrow> flush_buffer w = Inr w"
  by (simp add: flush_buffer_def)

lemma flush_buffer_resets: "flush_buffer w = Inr w' \<Longrightarrow> buffer_ptr w' = 0"
  by (auto simp: flush_buffer_def Let_def split: if_splits sum.splits option.splits)

text \<open>
  A flush returns whenever the storage array has the buffer's row shape and room for
  the buffered rows, so the idempotence below is not about an empty set of calls.
\<close>

lemma np_take_shape:
  "nd_shape b = n # r \<Longrightarrow> k \<le> n \<Longrightarrow> \<exists>c. np_take b k = Inr c \<and> nd_shape c = k # r"
  by (simp add: np_take_def min_def)

lemma np_setslice_fits:
  assumes "nd_shape a = n # r" "nd_shape c = k # r" "lo + k \<le> n"
  shows "\<exists>a'. np_setslice a lo (lo + k) c = Inr a'"
proof -
  have "max (min lo n) (min (lo + k) n) - min lo n = k"
    using assms(3) by (simp add: min_def max_def)
  then show ?thesis
    using assms by (simp add: np_setslice_def np_broadcast_def Let_def)
qed

lemma flush_buffer_returns:
  assumes "storage_array w = Some a" "nd_shape a = n # r"
    and "nd_shape (buffer w) = batch_size w # r" "buffer_ptr w \<le> batch_size w"
    and "storage_array_ptr w + buffer_ptr w \<le> n"
  shows "\<exists>w'. flush_buffer w = Inr w'"
proof (cases "0 < buffer_ptr w")
  case False
  then show ?thesis by (simp add: flush_buffer_def)
next
  case True
  obtain c where c: "np_take (buffer w) (buffer_ptr w) = Inr c" "nd_shape c = buffer_ptr w # r"
    using np_take_shape [OF assms(3,4)] by blast
  obtain a' where "np_setslice a (storage_array_ptr w) (storage_array_ptr w + buffer_ptr w) c = Inr a'"
    using np_setslice_fits [OF assms(2) c(2) assms(5)] by blast
  with True c assms(1) show ?thesis
    by (simp add: flush_buffer_def Let_def)
qed

text \<open>
  C10, as amended. \<^verbatim>\<open>flush_buffer\<close> is idempotent: after a call that returns, \<^verbatim>\<open>buffer_ptr\<close> is 0,
  and a second call returns the very same writer: \<^verbatim>\<open>buffer_ptr\<close>,
  \<^verbatim>\<open>storage_array_ptr\<close> and the storage array are unchanged.
\<close>

theorem flush_buffer_idempotent:
  "flush_buffer w = Inr w' \<Longrightarrow>
     buffer_ptr w' = 0 \<and> flush_buffer w' = Inr w'"
  using flush_buffer_resets [of w w'] flush_buffer_empty [of w'] by simp

theorem flush_buffer_idempotent_witness:
  "\<exists>w'. flush_buffer ((buffered_array_writer_init (Some (np_zeros [3, 2] Float32)) [2] Float32 2 None)
            \<lparr>buffer := \<lparr>nd_shape = [2, 2], nd_dtype = Float32, nd_flat = [7, 8, 0, 0 :: int]\<rparr>,
             buffer_ptr := 1\<rparr>) = Inr w'
        \<and> nd_flat (the (storage_array w')) = [7, 8, 0, 0, 0, 0]
        \<and> storage_array_ptr w' = 1 \<and> buffer_ptr w' = 0 \<and> flush_buffer w' = Inr w'"
proof -
  let ?w = "(buffered_array_writer_init (Some (np_zeros [3, 2] Float32)) [2] Float32 2 None)
            \<lparr>buffer := \<lparr>nd_shape = [2, 2], nd_dtype = Float32, nd_flat = [7, 8, 0, 0 :: int]\<rparr>,
             buffer_ptr := 1\<rparr>"
  obtain w' where w': "flush_buffer ?w = Inr w'"
      "nd_flat (the (storage_array w')) = [7, 8, 0, 0, 0, 0]" "storage_array_ptr w' = 1"
    by (simp add: flush_buffer_def buffered_array_writer_init_def np_zeros_def np_take_def
        np_setslice_def np_broadcast_def Let_def eval_nat_numeral)
  from flush_buffer_idempotent [OF w'(1)] w' show ?thesis by blast
qed

text \<open>
  C10 as stated speaks of any call. A call that raises leaves \<^verbatim>\<open>buffer_ptr\<close> as it
  was: after the calls of \<open>example_calls\<close> two elements are buffered, the storage array
  has one free row, and the flush raises \<^verbatim>\<open>ValueError\<close> at line 211.
\<close>

theorem flush_buffer_raises_with_full_buffer:
  "example_calls = Inr example_writer
   \<and> buffer_ptr example_writer = 2
   \<and> flush_buffer example_writer = Inl ValueError"
proof -
  have "example_calls = Inr example_writer" by code_simp
  moreover have "buffer_ptr example_writer = 2" by (simp add: example_writer_def)
  moreover have "flush_buffer example_writer = Inl ValueError" by code_simp
  ultimately show ?thesis by simp
qed

text \<open>
  A write of several elements at once never gets as far as the buffer: the \<^verbatim>\<open>elif\<close> of
  line 226 compares a shape of one dimension too many, \<^verbatim>\<open>data_len\<close> stays unbound, and
  line 239 raises, unless one of the earlier checks raised first.
\<close>

lemma data_len_of_batch:
  "nd_shape data \<noteq> s \<Longrightarrow> drop 1 (nd_shape data) = s \<Longrightarrow> data_len_of s data = Inr None"
  by (cases "nd_shape data") (auto simp: data_len_of_def shape_of_tail_def)

lemma buffered_write_batch:
  assumes "nd_shape data \<noteq> data_element_shape w"
  shows "buffered_write w data \<in> {Inl ValueError, Inl EOFError, Inl TypeError, Inl UnboundLocalError}"
proof (cases "drop 1 (nd_shape data) = data_element_shape w")
  case True
  with assms have "data_len_of (data_element_shape w) data = Inr None"
    by (rule data_len_of_batch)
  with True show ?thesis by (simp add: buffered_write_def)
next
  case False
  with assms show ?thesis by (simp add: buffered_write_def)
qed

text \<open>
  C7. A writer of declared length 2 (batch size 2, a storage array of 2 rows) is given
  3 elements at once, one more than its capacity: the call raises \<^verbatim>\<open>UnboundLocalError\<close>,
  not \<^verbatim>\<open>EOFError\<close>.
\<close>

theorem buffered_write_beyond_length:
  "buffered_write
     (buffered_array_writer_init (Some (np_zeros [2, 2] Float32)) [2] Float32 2 (Some 2))
     \<lparr>nd_shape = [3, 2], nd_dtype = Float32, nd_flat = [1, 2, 3, 4, 5, 6 :: int]\<rparr>
   = Inl UnboundLocalError"
  by (simp add: buffered_write_def buffered_array_writer_init_def data_len_of_def
      shape_of_tail_def)

lemma load_global_save_pathsavepath: "load_global ''save_pathsavepath'' = Inl NameError"
  by (simp add: load_global_def module_globals_def builtin_names_def)

text \<open>
  C8. Whatever the arguments, and whatever \<^verbatim>\<open>bcolz.zeros\<close> would do, the constructor of
  \<^verbatim>\<open>bcolz_array_writer\<close> raises \<^verbatim>\<open>NameError\<close>: it never returns a writer.
\<close>

theorem bcolz_array_writer_init_NameError:
  "bcolz_array_writer_init bcolz_zeros elem_shape dt bs save_path_arg len append_flag kw
     = Inl NameError"
  by (simp add: bcolz_array_writer_init_def load_global_save_pathsavepath)

section \<open>Properties of the composite array\<close>

lemma example_array_init:
  "multi_source_array_init id [array_source example_a, array_source example_b] None False
     = Inr example_array"
  by (simp add: multi_source_array_init_def example_array_def array_source_def example_a_def
      example_b_def Let_def eval_nat_numeral)

lemma example_vector_init:
  "multi_source_array_init id [array_source example_v] None False = Inr example_vector"
  by (simp add: multi_source_array_init_def example_vector_def array_source_def example_v_def
      Let_def eval_nat_numeral)

lemma array_source_contract:
  "src_getitem (array_source a) (KTuple [KInt i]) = src_getitem (array_source a) (KInt i)"
  by (simp add: array_source_def)

subsection \<open>Integer keys\<close>

lemma py_index_neg:
  "1 \<le> k \<Longrightarrow> k \<le> int (length xs) \<Longrightarrow> py_index xs (- k) = py_index xs (int (length xs) - k)"
  by (simp add: py_index_def Let_def)

lemma get_KInt:
  "get arr (KInt k)
     = (case get_element arr (KInt k) None of Inl e \<Rightarrow> Inl e | Inr x \<Rightarrow> Inr (Some x))"
  by (simp add: get_def split_key_def expand_ellipsis_def dispatch_def)

lemma get_KInt_Some:
  "get arr (KInt k) = Inr (Some e) \<Longrightarrow> get_element arr (KInt k) None = Inr e"
  by (simp add: get_KInt split: sum.splits)

lemma length_enumerate_pairs: "length (enumerate_pairs i ss) = sum_list (map src_len ss)"
  by (induction ss arbitrary: i) simp_all

lemma init_index_pairs:
  assumes "multi_source_array_init rng sl cl shuf = Inr arr"
    and "\<And>ps. length (rng ps) = length ps"
  shows "length (index_pairs arr) = num_items arr"
  using assms
  by (auto simp: multi_source_array_init_def Let_def length_enumerate_pairs
      split: list.splits option.splits)

lemma init_ndim: "multi_source_array_init rng sl cl shuf = Inr arr \<Longrightarrow> 1 \<le> arr_ndim arr"
  by (auto simp: multi_source_array_init_def Let_def split: list.splits option.splits)

text \<open>
  C9. For a constructed composite of length \<open>L\<close> (shuffled or not: the shuffle keeps the
  number of index pairs) and \<open>1 \<le> k \<le> L\<close>, the key \<open>-k\<close> gives what the key \<open>L - k\<close>
  gives: negative integers index from the end.
\<close>

theorem get_negative_index:
  assumes "multi_source_array_init rng sl cl shuf = Inr arr"
    and "\<And>ps. length (rng ps) = length ps"
    and "1 \<le> k" "k \<le> int (len_arr arr)"
  shows "get arr (KInt (- k)) = get arr (KInt (int (len_arr arr) - k))"
proof -
  have "length (index_pairs arr) = len_arr arr"
    using init_index_pairs [OF assms(1,2)] by (simp add: len_arr_def)
  then have "py_index (index_pairs arr) (- k) = py_index (index_pairs arr) (int (len_arr arr) - k)"
    using py_index_neg [of k "index_pairs arr"] assms(3,4) by simp
  then show ?thesis by (simp add: get_KInt get_element_def)
qed

subsection \<open>Blocks\<close>

lemma np_setitem_same_shape:
  assumes "nd_shape b = n # s" "nd_shape e = s" "i < n"
  shows "np_setitem b i e = Inr (b\<lparr>nd_flat := take (i * prod_list s) (nd_flat b) @ nd_flat e
                              @ drop (Suc i * prod_list s) (nd_flat b)\<rparr>)"
  using assms by (simp add: np_setitem_def np_broadcast_def)

text \<open>
  The loop of \<^verbatim>\<open>_get_block\<close> from row \<open>i\<close> on, when every lookup returns an element of
  the buffer's row shape: the rows \<open>i, i + 1, \<dots>\<close> of the buffer are overwritten, in
  order, by the values of the elements. \<open>P\<close> is the part of the buffer before row \<open>i\<close>.
\<close>

lemma get_block_loop_uniform:
  assumes "length vs = length es"
    and "\<forall>j<length vs. \<exists>r. row_key_remainder is_seq (i + j) kr = Inr r
            \<and> get_element arr (vs ! j) r = Inr (es ! j)"
    and "\<forall>e\<in>set es. nd_shape e = s \<and> length (nd_flat e) = prod_list s"
    and "nd_shape b = n # s" "nd_flat b = P @ R" "length P = i * prod_list s"
    and "i + length vs \<le> n"
  shows "get_block_loop arr is_seq kr n (Some b) i vs
         = Inr (Some (b\<lparr>nd_flat := P @ concat (map nd_flat es)
                           @ drop (length es * prod_list s) R\<rparr>))"
  using assms
proof (induction vs arbitrary: es i b P R)
  case Nil
  then show ?case by simp
next
  case (Cons v vs)
  then obtain e es' where es: "es = e # es'" by (cases es) auto
  from Cons.prems(2) obtain r where r: "row_key_remainder is_seq i kr = Inr r"
      "get_element arr v r = Inr e"
    using es by force
  have e: "nd_shape e = s" "length (nd_flat e) = prod_list s"
    using Cons.prems(3) es by auto
  have i: "i < n" using Cons.prems(7) by simp
  let ?b' = "b\<lparr>nd_flat := (P @ nd_flat e) @ drop (prod_list s) R\<rparr>"
  have set: "np_setitem b i e = Inr ?b'"
    using np_setitem_same_shape [OF Cons.prems(4) e(1) i] Cons.prems(5,6)
    by simp
  have step: "\<forall>j<length vs. \<exists>r. row_key_remainder is_seq (Suc i + j) kr = Inr r
            \<and> get_element arr (vs ! j) r = Inr (es' ! j)"
  proof (intro allI impI)
    fix j assume "j < length vs"
    then have "Suc j < length (v # vs)" by simp
    with Cons.prems(2) obtain r where "row_key_remainder is_seq (i + Suc j) kr = Inr r"
      "get_element arr ((v # vs) ! Suc j) r = Inr (es ! Suc j)" by blast
    then show "\<exists>r. row_key_remainder is_seq (Suc i + j) kr = Inr r
            \<and> get_element arr (vs ! j) r = Inr (es' ! j)" using es by auto
  qed
  have IH: "get_block_loop arr is_seq kr n (Some ?b') (Suc i) vs
      = Inr (Some (?b'\<lparr>nd_flat := (P @ nd_flat e) @ concat (map nd_flat es')
                           @ drop (length es' * prod_list s) (drop (prod_list s) R)\<rparr>))"
    apply (rule Cons.IH)
    using Cons.prems es e step by auto
  show ?case
    using r set IH es by (simp add: add.commute)
qed

text \<open>
  The whole loop, from the empty buffer: the first element allocates the buffer, and
  the block is the stack of the elements.
\<close>

lemma get_block_loop_first:
  assumes "length vs = length es" "es \<noteq> []"
    and "\<forall>j<length vs. \<exists>r. row_key_remainder is_seq j kr = Inr r
            \<and> get_element arr (vs ! j) r = Inr (es ! j)"
    and "\<forall>e\<in>set es. nd_shape e = s \<and> length (nd_flat e) = prod_list s"
  shows "get_block_loop arr is_seq kr (length vs) None 0 vs
         = Inr (Some (np_stack (arr_dtype arr) es))"
proof -
  obtain v vs' where vs: "vs = v # vs'" using assms(1,2) by (cases vs) auto
  obtain e es' where es: "es = e # es'" using assms(2) by (cases es) auto
  let ?m = "prod_list s"
  let ?n = "length vs"
  from assms(3) vs obtain r where r: "row_key_remainder is_seq 0 kr = Inr r"
      "get_element arr v r = Inr e"
    using es by force
  have e: "nd_shape e = s" "length (nd_flat e) = ?m"
    using assms(4) es by auto
  let ?z = "np_zeros (?n # nd_shape e) (arr_dtype arr) :: 'a ndarray"
  let ?b = "?z\<lparr>nd_flat := nd_flat e @ drop ?m (replicate (?n * ?m) 0)\<rparr>"
  have z: "nd_shape ?z = ?n # s" "nd_flat ?z = replicate (?n * ?m) 0"
    using e by (simp_all add: np_zeros_def)
  have "np_setitem ?z 0 e = Inr (?z\<lparr>nd_flat := take (0 * ?m) (nd_flat ?z) @ nd_flat e
                              @ drop (Suc 0 * ?m) (nd_flat ?z)\<rparr>)"
    by (rule np_setitem_same_shape [OF z(1) e(1)]) (simp add: vs)
  then have set: "np_setitem ?z 0 e = Inr ?b"
    using z(2) by simp
  have step: "\<forall>j<length vs'. \<exists>r. row_key_remainder is_seq (Suc 0 + j) kr = Inr r
            \<and> get_element arr (vs' ! j) r = Inr (es' ! j)"
  proof (intro allI impI)
    fix j assume "j < length vs'"
    then have "Suc j < length vs" by (simp add: vs)
    with assms(3) obtain r where "row_key_remainder is_seq (Suc j) kr = Inr r"
      "get_element arr (vs ! Suc j) r = Inr (es ! Suc j)" by blast
    then show "\<exists>r. row_key_remainder is_seq (Suc 0 + j) kr = Inr r
            \<and> get_element arr (vs' ! j) r = Inr (es' ! j)" using es vs by auto
  qed
  have rest: "get_block_loop arr is_seq kr ?n (Some ?b) (Suc 0) vs'
      = Inr (Some (?b\<lparr>nd_flat := nd_flat e @ concat (map nd_flat es')
                           @ drop (length es' * ?m) (drop ?m (replicate (?n * ?m) 0))\<rparr>))"
    apply (rule get_block_loop_uniform [where s = s])
    using assms(1,4) es vs e step z by (auto simp: np_zeros_def)
  have len: "?n = Suc (length es')" using assms(1) es by simp
  have "drop (length es' * ?m) (drop ?m (replicate (?n * ?m) (0::'a))) = []"
    by (simp add: len)
  with rest have "get_block_loop arr is_seq kr ?n (Some ?b) (Suc 0) vs'
      = Inr (Some (np_stack (arr_dtype arr) es))"
    using es e len by (simp add: np_stack_def np_zeros_def)
  then show ?thesis
    using r set vs by simp
qed

lemma key_iter_range:
  "key_iter (KRange (int a) (int b) 1) = Inr (map (\<lambda>i. KInt (int i)) [a..<b])"
proof -
  have "range_list (int a) (int b) 1 = map int [a..<b]"
    by (auto simp: range_list_def range_len_def map_add_upt nat_diff_distrib' intro!: nth_equalityI)
  then show ?thesis by (simp add: comp_def)
qed

lemma get_slice:
  "get arr (KSlice (Some (int a)) (Some (int b)) None)
     = get_block arr (KRange (int a) (int b) 1) None"
  by (simp add: get_def split_key_def expand_ellipsis_def dispatch_def py_range_def)

theorem get_negative_index_witness:
  "multi_source_array_init id [array_source example_a, array_source example_b] None False
       = Inr example_array
   \<and> (1::int) \<le> 2 \<and> (2::int) \<le> int (len_arr example_array)
   \<and> get example_array (KInt (- 2)) = get example_array (KInt 3)
   \<and> get example_array (KInt 3)
       = Inr (Some \<lparr>nd_shape = [2], nd_dtype = Float32, nd_flat = [40, 41]\<rparr>)"
proof -
  have l: "len_arr example_array = 5" by (simp add: len_arr_def example_array_def)
  have "get example_array (KInt (- 2)) = get example_array (KInt (int (len_arr example_array) - 2))"
    by (rule get_negative_index [OF example_array_init]) (simp_all add: l)
  moreover have "get example_array (KInt 3)
       = Inr (Some \<lparr>nd_shape = [2], nd_dtype = Float32, nd_flat = [40, 41]\<rparr>)"
    by code_simp
  ultimately show ?thesis using example_array_init l by simp
qed

text \<open>
  C5, as amended. For \<open>a < b\<close>, when the single-element lookups \<open>arr[a], \<dots>, arr[b - 1]\<close>
  return elements of one shape (the Source contract), \<open>arr[a:b]\<close> is the stack of these
  elements, in order, in a buffer of the composite's element type. (Every row is read
  by \<^verbatim>\<open>_get_element\<close>, after which the buffer row is assigned.)
\<close>

theorem slice_is_stack:
  assumes "a < b"
    and "map (\<lambda>i. get arr (KInt (int i))) [a..<b] = map (\<lambda>e. Inr (Some e)) es"
    and "\<forall>e\<in>set es. nd_shape e = s \<and> length (nd_flat e) = prod_list s"
  shows "get arr (KSlice (Some (int a)) (Some (int b)) None)
           = Inr (Some (np_stack (arr_dtype arr) es))"
proof -
  let ?vs = "map (\<lambda>i. KInt (int i)) [a..<b]"
  have len: "length ?vs = length es"
    using arg_cong [OF assms(2), of length] by simp
  have ne: "es \<noteq> []" using len assms(1) by auto
  have look: "\<forall>j<length ?vs. \<exists>r. row_key_remainder False j None = Inr r
            \<and> get_element arr (?vs ! j) r = Inr (es ! j)"
  proof (intro allI impI)
    fix j assume j: "j < length ?vs"
    then have "map (\<lambda>i. get arr (KInt (int i))) [a..<b] ! j = map (\<lambda>e. Inr (Some e)) es ! j"
      using assms(2) by simp
    then have "get arr (KInt (int (a + j))) = Inr (Some (es ! j))"
      using j len by simp
    then have "get_element arr (KInt (int (a + j))) None = Inr (es ! j)"
      by (rule get_KInt_Some)
    then show "\<exists>r. row_key_remainder False j None = Inr r
            \<and> get_element arr (?vs ! j) r = Inr (es ! j)"
      using j by (simp add: row_key_remainder_def)
  qed
  have "get_block_loop arr False None (length ?vs) None 0 ?vs
         = Inr (Some (np_stack (arr_dtype arr) es))"
    by (rule get_block_loop_first [OF len ne look assms(3)])
  then show ?thesis
    unfolding get_slice get_block_def key_iter_range by simp
qed

theorem slice_is_stack_witness:
  "(1::nat) < 4
   \<and> map (\<lambda>i. get example_array (KInt (int i))) [1..<4]
      = map (\<lambda>e. Inr (Some e))
          [\<lparr>nd_shape = [2], nd_dtype = Float32, nd_flat = [20, 21]\<rparr>,
           \<lparr>nd_shape = [2], nd_dtype = Float32, nd_flat = [30, 31]\<rparr>,
           \<lparr>nd_shape = [2], nd_dtype = Float32, nd_flat = [40, 41]\<rparr>]
   \<and> get example_array (KSlice (Some 1) (Some 4) None)
      = Inr (Some \<lparr>nd_shape = [3, 2], nd_dtype = Float32,
                   nd_flat = [20, 21, 30, 31, 40, 41]\<rparr>)"
proof -
  let ?es = "[\<lparr>nd_shape = [2], nd_dtype = Float32, nd_flat = [20, 21 :: int]\<rparr>,
           \<lparr>nd_shape = [2], nd_dtype = Float32, nd_flat = [30, 31]\<rparr>,
           \<lparr>nd_shape = [2], nd_dtype = Float32, nd_flat = [40, 41]\<rparr>]"
  have lt: "(1::nat) < 4" by simp
  have rows: "map (\<lambda>i. get example_array (KInt (int i))) [1..<4] = map (\<lambda>e. Inr (Some e)) ?es"
    by code_simp
  have shapes: "\<forall>e\<in>set ?es. nd_shape e = [2] \<and> length (nd_flat e) = prod_list [2]"
    by simp
  have "get example_array (KSlice (Some (int 1)) (Some (int 4)) None)
          = Inr (Some (np_stack (arr_dtype example_array) ?es))"
    by (rule slice_is_stack [OF lt rows shapes])
  then have "get example_array (KSlice (Some 1) (Some 4) None)
      = Inr (Some \<lparr>nd_shape = [3, 2], nd_dtype = Float32,
                   nd_flat = [20, 21, 30, 31, 40, 41]\<rparr>)"
    by (simp add: np_stack_def example_array_def)
  with rows show ?thesis by simp
qed

text \<open>
  C5 as stated includes \<open>a = b\<close>. There \<^verbatim>\<open>_get_block\<close> reads no element, never allocates
  its buffer and returns \<^verbatim>\<open>None\<close>: \<open>arr[1:1]\<close> is \<^verbatim>\<open>None\<close>, not the stack of no rows.
\<close>

theorem empty_slice_is_None:
  "get example_array (KSlice (Some 1) (Some 1) None) = Inr None
   \<and> get example_array (KSlice (Some 1) (Some 1) None)
       \<noteq> Inr (Some (np_stack (arr_dtype example_array) []))"
proof -
  have "get example_array (KSlice (Some 1) (Some 1) None) = Inr None"
    by code_simp
  then show ?thesis by simp
qed

subsection \<open>Nested lists\<close>

lemma get_element_contract:
  assumes "\<forall>s\<in>set (source_list arr). \<forall>i. src_getitem s (KTuple [KInt i]) = src_getitem s (KInt i)"
  shows "get_element arr v (Some []) = get_element arr v None"
proof (cases v)
  case (KInt k)
  show ?thesis
  proof (cases "py_index (index_pairs arr) k")
    case (Inl e)
    then show ?thesis using KInt by (simp add: get_element_def)
  next
    case (Inr p)
    obtain sn idx where p: "p = (sn, idx)" by (cases p)
    show ?thesis
    proof (cases "py_index (source_list arr) (int sn)")
      case (Inl e)
      then show ?thesis using KInt Inr p by (simp add: get_element_def)
    next
      case src: (Inr src)
      then have "src \<in> set (source_list arr)"
        by (auto simp: py_index_def Let_def split: if_splits)
      with assms have "src_getitem src (KTuple [KInt (int idx)]) = src_getitem src (KInt (int idx))"
        by blast
      then show ?thesis using KInt Inr p src by (simp add: get_element_def)
    qed
  qed
qed (simp_all add: get_element_def)

lemma get_block_loop_contract:
  assumes "\<forall>s\<in>set (source_list arr). \<forall>i. src_getitem s (KTuple [KInt i]) = src_getitem s (KInt i)"
  shows "get_block_loop arr True (Some []) n blk i vs = get_block_loop arr True None n blk i vs"
  by (induction vs arbitrary: blk i)
     (simp_all add: row_key_remainder_def get_element_contract [OF assms] split: sum.splits)

text \<open>
  C6, as amended. For a constructed composite whose Sources index numpy-style (\<open>s[(i,)]\<close> is
  \<open>s[i]\<close>) and any list of integers, the singly nested key gives what the flat key
  gives, and the doubly nested key fails with \<^verbatim>\<open>IndexError\<close>.
\<close>

theorem nested_list_keys:
  assumes "multi_source_array_init rng sl cl shuf = Inr arr"
    and "\<forall>s\<in>set (source_list arr). \<forall>i. src_getitem s (KTuple [KInt i]) = src_getitem s (KInt i)"
  shows "get arr (KList [KList (map KInt xs)]) = get arr (KList (map KInt xs))
       \<and> get arr (KList [KList [KList (map KInt xs)]]) = Inl IndexError"
proof
  have nd: "\<not> arr_ndim arr < Suc 0" using init_ndim [OF assms(1)] by simp
  have flat: "filter has_len (map KInt xs) = []" by (induction xs) simp_all
  have "get arr (KList [KList (map KInt xs)]) = get_block arr (KList (map KInt xs)) (Some [])"
    using nd by (simp add: get_def split_key_def expand_ellipsis_def dispatch_def key_tail_def
        py_index_def)
  also have "\<dots> = get_block arr (KList (map KInt xs)) None"
    by (simp add: get_block_def get_block_loop_contract [OF assms(2)])
  also have "\<dots> = get arr (KList (map KInt xs))"
    by (simp add: get_def split_key_def expand_ellipsis_def dispatch_def flat)
  finally show "get arr (KList [KList (map KInt xs)]) = get arr (KList (map KInt xs))" .
  show "get arr (KList [KList [KList (map KInt xs)]]) = Inl IndexError"
    using nd by (simp add: get_def split_key_def expand_ellipsis_def dispatch_def key_tail_def
        py_index_def get_block_def row_key_remainder_def get_element_def)
qed

theorem nested_list_keys_witness:
  "multi_source_array_init id [array_source example_a, array_source example_b] None False
       = Inr example_array
   \<and> get example_array (KList [KList [KInt 0, KInt 1]]) = get example_array (KList [KInt 0, KInt 1])
   \<and> get example_array (KList [KInt 0, KInt 1])
       = Inr (Some \<lparr>nd_shape = [2, 2], nd_dtype = Float32, nd_flat = [10, 11, 20, 21]\<rparr>)
   \<and> get example_array (KList [KList [KList [KInt 0, KInt 1]]]) = Inl IndexError"
proof -
  have contract: "\<forall>s\<in>set (source_list example_array).
      \<forall>i. src_getitem s (KTuple [KInt i]) = src_getitem s (KInt i)"
    by (simp add: example_array_def array_source_contract)
  have flat: "get example_array (KList [KInt 0, KInt 1])
       = Inr (Some \<lparr>nd_shape = [2, 2], nd_dtype = Float32, nd_flat = [10, 11, 20, 21]\<rparr>)"
    by code_simp
  from nested_list_keys [OF example_array_init contract, of "[0, 1]"] flat example_array_init
  show ?thesis by simp
qed

text \<open>
  C6 as stated, for every composite, fails where a Source answers integers only: the
  flat key reads \<^verbatim>\<open>source[idx]\<close>, the nested key reads \<^verbatim>\<open>source[(idx,)]\<close>.
\<close>

theorem nested_key_on_integer_only_source:
  "get example_int_only (KList [KInt 0, KInt 1])
     = Inr (Some \<lparr>nd_shape = [2], nd_dtype = Int64, nd_flat = [7, 8]\<rparr>)
   \<and> get example_int_only (KList [KList [KInt 0, KInt 1]]) = Inl TypeError"
proof -
  have "get example_int_only (KList [KInt 0, KInt 1])
     = Inr (Some \<lparr>nd_shape = [2], nd_dtype = Int64, nd_flat = [7, 8]\<rparr>)"
    by code_simp
  moreover have "get example_int_only (KList [KList [KInt 0, KInt 1]]) = Inl TypeError"
    by code_simp
  ultimately show ?thesis by simp
qed

subsection \<open>Boolean masks and multi-part keys\<close>


lemma true_positions_bound: "p \<in> set (true_positions d) \<Longrightarrow> p < length d"
  by (simp add: true_positions_def)

lemma np_nonzero_1d:
  "np_nonzero [length d] d
     = KTuple [KIntArray [length (true_positions d)] (map int (true_positions d))]"
proof -
  have "map (\<lambda>p. int (coordinate [length d] 0 p)) (true_positions d) = map int (true_positions d)"
    by (rule map_cong) (auto simp: coordinate_def dest: true_positions_bound)
  then show ?thesis by (simp add: np_nonzero_def)
qed

lemma key_iter_int_vector:
  "key_iter (KIntArray [length xs] xs) = Inr (map KInt xs)"
  by (auto simp: int_array_row_def intro!: nth_equalityI)

lemma get_mask_1d:
  assumes "arr_ndim arr = 1"
  shows "get arr (KBoolArray [length d] d)
     = get_block arr (KIntArray [length (true_positions d)] (map int (true_positions d))) (Some [])"
  using assms
  by (simp add: get_def split_key_def np_nonzero_1d expand_ellipsis_def dispatch_def key_tail_def
      py_index_def)

text \<open>
  C2, as amended. A boolean mask is checked for its number of dimensions, not for its
  length: a mask whose number of dimensions differs from the composite's fails with
  \<^verbatim>\<open>IndexError\<close>. For a composite of scalars (one dimension) whose Sources index
  numpy-style, and a one-dimensional mask with at least one true position, when the
  lookups at the true positions return elements of one shape, the result is the stack of
  the elements at the true positions, in their original order.
\<close>

theorem boolean_mask_rank:
  "(length shp \<noteq> arr_ndim arr \<longrightarrow> get arr (KBoolArray shp d) = Inl IndexError)
   \<and> (arr_ndim arr = 1
        \<and> (\<forall>s\<in>set (source_list arr). \<forall>i. src_getitem s (KTuple [KInt i]) = src_getitem s (KInt i))
        \<and> map (\<lambda>p. get arr (KInt (int p))) (true_positions d) = map (\<lambda>e. Inr (Some e)) es
        \<and> (\<forall>e\<in>set es. nd_shape e = s \<and> length (nd_flat e) = prod_list s)
        \<and> es \<noteq> []
      \<longrightarrow> get arr (KBoolArray [length d] d) = Inr (Some (np_stack (arr_dtype arr) es)))"
proof (intro conjI impI)
  assume "length shp \<noteq> arr_ndim arr"
  then show "get arr (KBoolArray shp d) = Inl IndexError"
    by (simp add: get_def split_key_def)
next
  assume a: "arr_ndim arr = 1
        \<and> (\<forall>s\<in>set (source_list arr). \<forall>i. src_getitem s (KTuple [KInt i]) = src_getitem s (KInt i))
        \<and> map (\<lambda>p. get arr (KInt (int p))) (true_positions d) = map (\<lambda>e. Inr (Some e)) es
        \<and> (\<forall>e\<in>set es. nd_shape e = s \<and> length (nd_flat e) = prod_list s)
        \<and> es \<noteq> []"
  let ?tp = "true_positions d"
  let ?vs = "map KInt (map int ?tp)"
  have rows: "map (\<lambda>p. get arr (KInt (int p))) ?tp = map (\<lambda>e. Inr (Some e)) es" using a by blast
  have len: "length ?vs = length es"
    using arg_cong [OF rows, of length] by simp
  have look: "\<forall>j<length ?vs. \<exists>r. row_key_remainder False j (Some []) = Inr r
            \<and> get_element arr (?vs ! j) r = Inr (es ! j)"
  proof (intro allI impI)
    fix j assume j: "j < length ?vs"
    then have "map (\<lambda>p. get arr (KInt (int p))) ?tp ! j = map (\<lambda>e. Inr (Some e)) es ! j"
      using rows by simp
    then have "get arr (KInt (int (?tp ! j))) = Inr (Some (es ! j))"
      using j len by simp
    then have "get_element arr (KInt (int (?tp ! j))) None = Inr (es ! j)"
      by (rule get_KInt_Some)
    then have "get_element arr (KInt (int (?tp ! j))) (Some []) = Inr (es ! j)"
      using a get_element_contract [of arr] by simp
    then show "\<exists>r. row_key_remainder False j (Some []) = Inr r
            \<and> get_element arr (?vs ! j) r = Inr (es ! j)"
      using j by (simp add: row_key_remainder_def)
  qed
  have "get_block_loop arr False (Some []) (length ?vs) None 0 ?vs
         = Inr (Some (np_stack (arr_dtype arr) es))"
    apply (rule get_block_loop_first [OF len _ look])
    using a by blast+
  moreover have "key_iter (KIntArray [length ?tp] (map int ?tp)) = Inr ?vs"
    using key_iter_int_vector [of "map int ?tp"] by simp
  ultimately show "get arr (KBoolArray [length d] d) = Inr (Some (np_stack (arr_dtype arr) es))"
    using a by (simp add: get_mask_1d get_block_def del: key_iter.simps)
qed


theorem boolean_mask_rank_witness:
  "get example_array (KBoolArray [5] [True, False, False, True, False]) = Inl IndexError
   \<and> map (\<lambda>p. get example_vector (KInt (int p))) (true_positions [True, False, True])
       = map (\<lambda>e. Inr (Some e))
           [\<lparr>nd_shape = [], nd_dtype = Int64, nd_flat = [7]\<rparr>,
            \<lparr>nd_shape = [], nd_dtype = Int64, nd_flat = [9]\<rparr>]
   \<and> get example_vector (KBoolArray [3] [True, False, True])
       = Inr (Some \<lparr>nd_shape = [2], nd_dtype = Int64, nd_flat = [7, 9]\<rparr>)"
proof -
  let ?es = "[\<lparr>nd_shape = [], nd_dtype = Int64, nd_flat = [7 :: int]\<rparr>,
            \<lparr>nd_shape = [], nd_dtype = Int64, nd_flat = [9]\<rparr>]"
  let ?d = "[True, False, True]"
  have rank: "length [5 :: nat] \<noteq> arr_ndim example_array"
    by (simp add: example_array_def)
  have one: "arr_ndim example_vector = 1" by (simp add: example_vector_def)
  have contract: "\<forall>s\<in>set (source_list example_vector).
      \<forall>i. src_getitem s (KTuple [KInt i]) = src_getitem s (KInt i)"
    by (simp add: example_vector_def array_source_contract)
  have rows: "map (\<lambda>p. get example_vector (KInt (int p))) (true_positions ?d)
       = map (\<lambda>e. Inr (Some e)) ?es"
    by code_simp
  have shapes: "\<forall>e\<in>set ?es. nd_shape e = [] \<and> length (nd_flat e) = prod_list []"
    by simp
  have "get example_vector (KBoolArray [length ?d] ?d)
      = Inr (Some (np_stack (arr_dtype example_vector) ?es))"
    using boolean_mask_rank [of "[length ?d]" example_vector ?d ?es "[]"] one contract rows shapes
    by blast
  moreover have "length ?d = 3" "arr_dtype example_vector = Int64"
    by (simp_all add: example_vector_def)
  ultimately have "get example_vector (KBoolArray [3] ?d)
       = Inr (Some \<lparr>nd_shape = [2], nd_dtype = Int64, nd_flat = [7, 9]\<rparr>)"
    by (simp add: np_stack_def eval_nat_numeral)
  moreover have "get example_array (KBoolArray [5] [True, False, False, True, False]) = Inl IndexError"
    using boolean_mask_rank [of "[5]" example_array "[True, False, False, True, False]"] rank
    by blast
  ultimately show ?thesis using rows by simp
qed

text \<open>
  C2 as stated fails three ways: a mask of length 1 on a composite of length 3 selects
  an element instead of failing; a mask of length 5 on a composite of length 5 (whose
  elements are rows of 2 values) fails; and a mask of length 3 on a composite of 3
  scalars fails with \<^verbatim>\<open>TypeError\<close> when its Source answers integers only, although
  the integer lookups at the true positions succeed.
\<close>

theorem boolean_mask_length_unchecked:
  "get example_vector (KBoolArray [1] [True])
     = Inr (Some \<lparr>nd_shape = [1], nd_dtype = Int64, nd_flat = [7]\<rparr>)
   \<and> len_arr example_vector = 3
   \<and> get example_array (KBoolArray [5] [True, False, False, True, False]) = Inl IndexError
   \<and> len_arr example_array = 5
   \<and> get example_int_only (KInt 0) = Inr (Some \<lparr>nd_shape = [], nd_dtype = Int64, nd_flat = [7]\<rparr>)
   \<and> get example_int_only (KInt 2) = Inr (Some \<lparr>nd_shape = [], nd_dtype = Int64, nd_flat = [9]\<rparr>)
   \<and> get example_int_only (KBoolArray [3] [True, False, True]) = Inl TypeError
   \<and> len_arr example_int_only = 3"
proof -
  have "get example_vector (KBoolArray [1] [True])
     = Inr (Some \<lparr>nd_shape = [1], nd_dtype = Int64, nd_flat = [7]\<rparr>)"
    by code_simp
  moreover have "get example_array (KBoolArray [5] [True, False, False, True, False]) = Inl IndexError"
    by code_simp
  moreover have "get example_int_only (KInt 0)
      = Inr (Some \<lparr>nd_shape = [], nd_dtype = Int64, nd_flat = [7]\<rparr>)"
    by code_simp
  moreover have "get example_int_only (KInt 2)
      = Inr (Some \<lparr>nd_shape = [], nd_dtype = Int64, nd_flat = [9]\<rparr>)"
    by code_simp
  moreover have "get example_int_only (KBoolArray [3] [True, False, True]) = Inl TypeError"
    by code_simp
  ultimately show ?thesis
    by (simp add: len_arr_def example_vector_def example_array_def example_int_only_def)
qed

lemma common_prefix_nil: "\<forall>s\<in>set ss. s = [] \<Longrightarrow> common_prefix ss = []"
  by (induction ss rule: common_prefix.induct) simp_all

lemma np_shape_int_list: "np_shape (KList (map KInt xs)) = [length xs]"
  by (simp add: common_prefix_nil)

text \<open>
  \<open>stack_reads\<close> on reads that all succeed with elements of one shape is the stack of
  the spec.
\<close>

lemma stack_reads_rows:
  assumes "\<forall>e\<in>set es. nd_shape e = s \<and> length (nd_flat e) = prod_list s"
    and "nd_shape b = n # s" "nd_flat b = P @ R" "length P = i * prod_list s"
    and "i + length es \<le> n"
  shows "stack_reads dt n (Some b) i (map Inr es)
         = Inr (Some (b\<lparr>nd_flat := P @ concat (map nd_flat es)
                           @ drop (length es * prod_list s) R\<rparr>))"
  using assms
proof (induction es arbitrary: i b P R)
  case Nil
  then show ?case by simp
next
  case (Cons e es)
  have e: "nd_shape e = s" "length (nd_flat e) = prod_list s"
    using Cons.prems(1) by auto
  have i: "i < n" using Cons.prems(5) by simp
  let ?b' = "b\<lparr>nd_flat := (P @ nd_flat e) @ drop (prod_list s) R\<rparr>"
  have set: "np_setitem b i e = Inr ?b'"
    using np_setitem_same_shape [OF Cons.prems(2) e(1) i] Cons.prems(3,4)
    by simp
  have IH: "stack_reads dt n (Some ?b') (Suc i) (map Inr es)
      = Inr (Some (?b'\<lparr>nd_flat := (P @ nd_flat e) @ concat (map nd_flat es)
                           @ drop (length es * prod_list s) (drop (prod_list s) R)\<rparr>))"
    apply (rule Cons.IH)
    using Cons.prems e by auto
  show ?case
    using set IH by (simp add: add.commute)
qed

lemma stack_reads_uniform:
  assumes "es \<noteq> []"
    and "\<forall>e\<in>set es. nd_shape e = s \<and> length (nd_flat e) = prod_list s"
  shows "stack_reads dt (length es) None 0 (map Inr es) = Inr (Some (np_stack dt es))"
proof -
  obtain e es' where es: "es = e # es'" using assms(1) by (cases es) auto
  let ?m = "prod_list s"
  let ?n = "length es"
  have e: "nd_shape e = s" "length (nd_flat e) = ?m"
    using assms(2) es by auto
  let ?z = "np_zeros (?n # nd_shape e) dt :: 'a ndarray"
  let ?b = "?z\<lparr>nd_flat := nd_flat e @ drop ?m (replicate (?n * ?m) 0)\<rparr>"
  have z: "nd_shape ?z = ?n # s" "nd_flat ?z = replicate (?n * ?m) 0"
    using e by (simp_all add: np_zeros_def)
  have "np_setitem ?z 0 e = Inr (?z\<lparr>nd_flat := take (0 * ?m) (nd_flat ?z) @ nd_flat e
                              @ drop (Suc 0 * ?m) (nd_flat ?z)\<rparr>)"
    by (rule np_setitem_same_shape [OF z(1) e(1)]) (simp add: es)
  then have set: "np_setitem ?z 0 e = Inr ?b"
    using z(2) by simp
  have rest: "stack_reads dt ?n (Some ?b) (Suc 0) (map Inr es')
      = Inr (Some (?b\<lparr>nd_flat := nd_flat e @ concat (map nd_flat es')
                           @ drop (length es' * ?m) (drop ?m (replicate (?n * ?m) 0))\<rparr>))"
    apply (rule stack_reads_rows [where s = s])
    using assms(2) es e z by (auto simp: np_zeros_def)
  have len: "?n = Suc (length es')" using es by simp
  have "drop (length es' * ?m) (drop ?m (replicate (?n * ?m) (0::'a))) = []"
    by (simp add: len)
  with rest have "stack_reads dt ?n (Some ?b) (Suc 0) (map Inr es')
      = Inr (Some (np_stack dt es))"
    using es e len by (simp add: np_stack_def np_zeros_def)
  then show ?thesis
    using set es by simp
qed










end
